theory Spec2Isabelle
  imports Complex_Main
begin

section \<open>Values, errors and arrays\<close>

text \<open>
  The simulator of \<^verbatim>\<open>simulator.py\<close> computes with Python floats and numpy arrays.
  Floats are modelled as reals (and complex numbers). Where rounding only perturbs a
  value, the exact value stands for the float; where an integer is read off a float,
  in the step count of \<^verbatim>\<open>evolve\<close>, the rounding of the division to a double is
  modelled (\<open>round_double\<close> below). Overflow and subnormal numbers are not represented.
  What numpy does where exact arithmetic has no answer is represented:
  a division by zero and the square root of a negative number raise nothing in numpy,
  they produce \<^verbatim>\<open>inf\<close> or \<^verbatim>\<open>nan\<close>; both are the one value \<open>NonFin\<close> here.
  Python's own float division raises \<^verbatim>\<open>ZeroDivisionError\<close> instead.

  An exception is a value of type \<open>error\<close>. The message of a \<^verbatim>\<open>ValueError\<close> raised by
  the source is kept word for word; the messages of numpy and scipy are shortened.
\<close>

datatype error = ValueError string | TypeError | ZeroDivisionError

datatype 'a np = Fin 'a | NonFin

type_synonym cvec = "complex np list"

type_synonym matrix = "real list list"

text \<open>Python's \<^verbatim>\<open>a / b\<close> on floats.\<close>

definition py_div :: "real \<Rightarrow> real \<Rightarrow> error + real" where
  "py_div a b = (if b = 0 then Inl ZeroDivisionError else Inr (a / b))"

text \<open>
  The double nearest to a real, ties to the even significand: a double has 53
  significant bits, so in the binade \<open>2\<^sup>e \<le> |x| < 2\<^sup>e\<^sup>+\<^sup>1\<close> the doubles are the multiples of
  \<open>2\<^sup>e\<^sup>-\<^sup>5\<^sup>2\<close>. \<open>py_float_div\<close> is Python's \<^verbatim>\<open>a / b\<close> on floats with its rounding.
\<close>

definition round_even :: "real \<Rightarrow> int" where
  "round_even y =
     (let f = \<lfloor>y\<rfloor> in
      if y - real_of_int f < 1 / 2 then f
      else if 1 / 2 < y - real_of_int f then f + 1
      else if even f then f else f + 1)"

definition pow2 :: "int \<Rightarrow> real" where
  "pow2 n = (if 0 \<le> n then 2 ^ nat n else 1 / 2 ^ nat (- n))"

definition binade :: "real \<Rightarrow> int" where
  "binade x = \<lfloor>log 2 \<bar>x\<bar>\<rfloor>"

definition round_double :: "real \<Rightarrow> real" where
  "round_double x =
     (if x = 0 then 0
      else real_of_int (round_even (x * pow2 (52 - binade x))) * pow2 (binade x - 52))"

definition py_float_div :: "real \<Rightarrow> real \<Rightarrow> error + real" where
  "py_float_div a b = (if b = 0 then Inl ZeroDivisionError else Inr (round_double (a / b)))"

text \<open>Python's \<^verbatim>\<open>int(r)\<close> on a float: truncation towards zero.\<close>

definition py_int :: "real \<Rightarrow> int" where
  "py_int r = (if 0 \<le> r then \<lfloor>r\<rfloor> else \<lceil>r\<rceil>)"

subsection \<open>numpy\<close>

definition np_zeros :: "int \<Rightarrow> error + real list" where
  "np_zeros n =
     (if n < 0 then Inl (ValueError ''negative dimensions are not allowed'')
      else Inr (replicate (nat n) 0))"

definition np_ones :: "int \<Rightarrow> error + real list" where
  "np_ones n =
     (if n < 0 then Inl (ValueError ''negative dimensions are not allowed'')
      else Inr (replicate (nat n) 1))"

text \<open>\<^verbatim>\<open>np.linspace(start, stop, num)\<close>, end point included.\<close>

definition np_linspace :: "real \<Rightarrow> real \<Rightarrow> int \<Rightarrow> error + real list" where
  "np_linspace start stop num =
     (if num < 0 then Inl (ValueError ''Number of samples must be non-negative'')
      else if num = 1 then Inr [start]
      else Inr (map (\<lambda>i. start + real i * ((stop - start) / real_of_int (num - 1)))
                  [0..<nat num]))"

text \<open>\<^verbatim>\<open>np.abs(z)**2\<close>, \<^verbatim>\<open>np.sum\<close>, \<^verbatim>\<open>np.sqrt\<close> and the division of an array entry by a
  scalar. A sum with a non-finite term is non-finite. The only non-finite divisor that
  a finite array gives rise to is the \<^verbatim>\<open>nan\<close> of \<open>np_sqrt\<close>, and a quotient by it
  is \<^verbatim>\<open>nan\<close>.\<close>

fun np_abs_sq :: "complex np \<Rightarrow> real np" where
  "np_abs_sq (Fin z) = Fin ((cmod z)\<^sup>2)"
| "np_abs_sq NonFin = NonFin"

fun np_add :: "real np \<Rightarrow> real np \<Rightarrow> real np" where
  "np_add (Fin a) (Fin b) = Fin (a + b)"
| "np_add _ _ = NonFin"

definition np_sum :: "real np list \<Rightarrow> real np" where
  "np_sum xs = foldr np_add xs (Fin 0)"

fun np_scale :: "real np \<Rightarrow> real \<Rightarrow> real np" where
  "np_scale (Fin a) c = Fin (a * c)"
| "np_scale NonFin c = NonFin"

fun np_sqrt :: "real np \<Rightarrow> real np" where
  "np_sqrt (Fin a) = (if a < 0 then NonFin else Fin (sqrt a))"
| "np_sqrt NonFin = NonFin"

fun np_div :: "complex np \<Rightarrow> real np \<Rightarrow> complex np" where
  "np_div (Fin z) (Fin r) = (if r = 0 then NonFin else Fin (z / complex_of_real r))"
| "np_div _ _ = NonFin"

text \<open>\<^verbatim>\<open>a * b\<close> of a real array and an array of squared moduli, with numpy's
  broadcasting of one-dimensional arrays: equal lengths, or one of them of length 1.\<close>

fun np_times :: "real \<Rightarrow> real np \<Rightarrow> real np" where
  "np_times a (Fin b) = Fin (a * b)"
| "np_times a NonFin = NonFin"

definition np_mul :: "real list \<Rightarrow> real np list \<Rightarrow> error + real np list" where
  "np_mul xs ys =
     (if length xs = length ys then Inr (map2 np_times xs ys)
      else if length xs = 1 then Inr (map (np_times (hd xs)) ys)
      else if length ys = 1 then Inr (map (\<lambda>a. np_times a (hd ys)) xs)
      else Inl (ValueError ''operands could not be broadcast together''))"

subsection \<open>scipy.sparse\<close>

text \<open>
  \<^verbatim>\<open>diags(diagonals, offsets, shape=(n, n))\<close>. A matrix is the list of its rows. The
  diagonal at offset \<open>k\<close> of an \<open>n \<times> n\<close> matrix has \<open>n - |k|\<close> entries; scipy cuts a
  longer array to that length, repeats an array of length 1, and raises on any other
  length. The entry at row \<open>i\<close>, column \<open>j\<close> of the diagonal at offset \<open>j - i\<close> is the
  array's entry \<open>min i j\<close>.
\<close>

definition fit_diagonal :: "nat \<Rightarrow> int \<Rightarrow> real list \<Rightarrow> error + real list" where
  "fit_diagonal n k d =
     (if int n < \<bar>k\<bar> then Inl (ValueError ''Offset out of bounds'')
      else let len = n - nat \<bar>k\<bar> in
        if len \<le> length d then Inr (take len d)
        else if length d = 1 then Inr (replicate len (hd d))
        else Inl (ValueError ''Diagonal length does not agree with matrix size''))"

fun fit_all :: "nat \<Rightarrow> (int \<times> real list) list \<Rightarrow> error + (int \<times> real list) list" where
  "fit_all n [] = Inr []"
| "fit_all n ((k, d) # rest) =
     (case fit_diagonal n k d of
        Inl e \<Rightarrow> Inl e
      | Inr d' \<Rightarrow> (case fit_all n rest of Inl e \<Rightarrow> Inl e | Inr ds \<Rightarrow> Inr ((k, d') # ds)))"

definition diag_entry :: "nat \<Rightarrow> nat \<Rightarrow> int \<times> real list \<Rightarrow> real" where
  "diag_entry i j kd = (if int j - int i = fst kd then snd kd ! min i j else 0)"

definition diags :: "real list list \<Rightarrow> int list \<Rightarrow> int \<Rightarrow> error + matrix" where
  "diags diagonals offsets n =
     (if n < 0 then Inl (ValueError ''invalid shape'')
      else if length diagonals \<noteq> length offsets
        then Inl (ValueError ''Different number of diagonals and offsets.'')
      else case fit_all (nat n) (zip offsets diagonals) of
        Inl e \<Rightarrow> Inl e
      | Inr kds \<Rightarrow>
          Inr (map (\<lambda>i. map (\<lambda>j. sum_list (map (diag_entry i j) kds)) [0..<nat n])
                 [0..<nat n]))"

text \<open>\<^verbatim>\<open>c * A\<close> and \<^verbatim>\<open>A + B\<close> on sparse matrices; the sum needs equal shapes.\<close>

definition mat_scale :: "real \<Rightarrow> matrix \<Rightarrow> matrix" where
  "mat_scale c A = map (map ((*) c)) A"

definition mat_add :: "matrix \<Rightarrow> matrix \<Rightarrow> error + matrix" where
  "mat_add A B =
     (if map length A = map length B then Inr (map2 (map2 (+)) A B)
      else Inl (ValueError ''inconsistent shapes''))"

section \<open>The simulator\<close>

text \<open>
  The object's attributes, under their names in the source. The wavefunction arrays are
  objects of their own: \<open>store\<close> holds every array allocated, an address is an index
  into it, and \<open>self_psi\<close> and \<open>self_history\<close> hold addresses, so that a copy and an
  alias differ. The grid, the potential and the matrices are held by value.
\<close>

type_synonym addr = nat

record sim =
  self_L :: real
  self_N :: int
  self_m :: real
  self_hbar :: real
  self_dt :: real
  self_dx :: real
  self_x :: "real list"
  self_V :: "real list"
  self_T :: matrix
  self_H :: matrix
  self_U_matrix :: "unit option"
  self_psi :: "addr option"
  self_time :: real
  self_history :: "addr list"
  store :: "cvec list"

text \<open>The \<^verbatim>\<open>potential\<close> argument: a function of the grid, or an array.\<close>

datatype potential = Callable "real list \<Rightarrow> real list" | Array "real list"

text \<open>
  \<^verbatim>\<open>expm_multiply(-1j * self.H * self.dt / self.hbar, self.psi)\<close> is scipy's; the model
  takes it as a parameter, a function of \<open>H\<close>, \<open>dt\<close>, \<open>hbar\<close> and the array, which may
  raise.
\<close>

type_synonym propagator = "matrix \<Rightarrow> real \<Rightarrow> real \<Rightarrow> cvec \<Rightarrow> error + cvec"

text \<open>A method that mutates the object returns \<open>Inr\<close> the object as it leaves it, or
  \<open>Inl\<close> the exception with the object as the exception leaves it.\<close>

type_synonym outcome = "error \<times> sim + sim"

subsection \<open>\<^verbatim>\<open>__init__\<close>\<close>

definition kinetic_diagonals :: "int \<Rightarrow> error + real list list" where
  "kinetic_diagonals n =
     (case np_ones (n - 1) of
        Inl e \<Rightarrow> Inl e
      | Inr off \<Rightarrow>
          (case np_ones n of
             Inl e \<Rightarrow> Inl e
           | Inr one \<Rightarrow> Inr [off, map ((*) (- 2)) one, off]))"

text \<open>\<^verbatim>\<open>np.zeros(N) if potential is None else potential(self.x)\<close>: calling an array
  raises \<^verbatim>\<open>TypeError\<close>.\<close>

definition initial_potential :: "potential option \<Rightarrow> real list \<Rightarrow> int \<Rightarrow> error + real list" where
  "initial_potential pot x n =
     (case pot of
        None \<Rightarrow> np_zeros n
      | Some (Callable f) \<Rightarrow> Inr (f x)
      | Some (Array a) \<Rightarrow> Inl TypeError)"

definition init :: "real \<Rightarrow> int \<Rightarrow> real \<Rightarrow> real \<Rightarrow> real \<Rightarrow> potential option \<Rightarrow> error + sim" where
  "init L N m hbar dt pot =
     (case py_div L (real_of_int (N - 1)) of
        Inl e \<Rightarrow> Inl e
      | Inr dx \<Rightarrow>
     (case np_linspace 0 L N of
        Inl e \<Rightarrow> Inl e
      | Inr x \<Rightarrow>
     (case initial_potential pot x N of
        Inl e \<Rightarrow> Inl e
      | Inr V \<Rightarrow>
     (case py_div (- (hbar\<^sup>2)) (2 * m * dx\<^sup>2) of
        Inl e \<Rightarrow> Inl e
      | Inr kinetic_coeff \<Rightarrow>
     (case kinetic_diagonals N of
        Inl e \<Rightarrow> Inl e
      | Inr diagonals \<Rightarrow>
     (case diags diagonals [- 1, 0, 1] N of
        Inl e \<Rightarrow> Inl e
      | Inr D \<Rightarrow>
     (let T = mat_scale kinetic_coeff D in
      case diags [V] [0] N of
        Inl e \<Rightarrow> Inl e
      | Inr DV \<Rightarrow>
     (case mat_add T DV of
        Inl e \<Rightarrow> Inl e
      | Inr H \<Rightarrow>
          Inr \<lparr>self_L = L, self_N = N, self_m = m, self_hbar = hbar, self_dt = dt,
               self_dx = dx, self_x = x, self_V = V, self_T = T, self_H = H,
               self_U_matrix = None, self_psi = None, self_time = 0,
               self_history = [], store = []\<rparr>))))))))"

subsection \<open>\<^verbatim>\<open>set_initial_wavefunction\<close>\<close>

text \<open>The argument is an array of finite complex numbers, of any length. The quotient
  is a new array, and \<^verbatim>\<open>self.psi.copy()\<close> is another.\<close>

definition norm_sq :: "cvec \<Rightarrow> real \<Rightarrow> real np" where
  "norm_sq a dx = np_scale (np_sum (map np_abs_sq a)) dx"

definition normalized :: "cvec \<Rightarrow> real \<Rightarrow> cvec" where
  "normalized a dx = map (\<lambda>z. np_div z (np_sqrt (norm_sq a dx))) a"

definition set_initial_wavefunction :: "complex list \<Rightarrow> sim \<Rightarrow> outcome" where
  "set_initial_wavefunction psi0 s =
     (let v = normalized (map Fin psi0) (self_dx s);
          a = length (store s)
      in Inr (s\<lparr>store := store s @ [v, v], self_psi := Some a, self_time := 0,
                self_history := [Suc a]\<rparr>))"

subsection \<open>\<^verbatim>\<open>step\<close> and \<^verbatim>\<open>evolve\<close>\<close>

definition step :: "propagator \<Rightarrow> sim \<Rightarrow> outcome" where
  "step em s =
     (case self_psi s of
        None \<Rightarrow> Inl (ValueError ''Initial wavefunction not set'', s)
      | Some a \<Rightarrow>
          (case em (self_H s) (self_dt s) (self_hbar s) (store s ! a) of
             Inl e \<Rightarrow> Inl (e, s)
           | Inr v \<Rightarrow>
               (let b = length (store s)
                in Inr (s\<lparr>store := store s @ [v, v], self_psi := Some b,
                          self_time := self_time s + self_dt s,
                          self_history := self_history s @ [Suc b]\<rparr>))))"

text \<open>\<^verbatim>\<open>for _ in range(steps): self.step()\<close>; an exception of a step ends the loop.\<close>

fun step_loop :: "propagator \<Rightarrow> nat \<Rightarrow> sim \<Rightarrow> outcome" where
  "step_loop em 0 s = Inr s"
| "step_loop em (Suc n) s =
     (case step em s of Inl e \<Rightarrow> Inl e | Inr s' \<Rightarrow> step_loop em n s')"

text \<open>\<^verbatim>\<open>steps = int(total_time / self.dt)\<close>, of the quotient as the float division rounds
  it. \<^verbatim>\<open>range(steps)\<close> is empty for \<^verbatim>\<open>steps \<le> 0\<close>: the loop runs \<open>nat steps\<close> times.\<close>

definition evolve :: "propagator \<Rightarrow> real \<Rightarrow> sim \<Rightarrow> outcome" where
  "evolve em total_time s =
     (case py_float_div total_time (self_dt s) of
        Inl e \<Rightarrow> Inl (e, s)
      | Inr q \<Rightarrow> step_loop em (nat (py_int q)) s)"

subsection \<open>Observables\<close>

text \<open>\<^verbatim>\<open>np.abs(None)\<close> raises \<^verbatim>\<open>TypeError\<close>.\<close>

definition probability_density :: "sim \<Rightarrow> error + real np list" where
  "probability_density s =
     (case self_psi s of
        None \<Rightarrow> Inl TypeError
      | Some a \<Rightarrow> Inr (map np_abs_sq (store s ! a)))"

definition expectation_position :: "sim \<Rightarrow> error + real np" where
  "expectation_position s =
     (case probability_density s of
        Inl e \<Rightarrow> Inl e
      | Inr p \<Rightarrow>
          (case np_mul (self_x s) p of
             Inl e \<Rightarrow> Inl e
           | Inr xp \<Rightarrow> Inr (np_scale (np_sum xp) (self_dx s))))"

subsection \<open>\<^verbatim>\<open>update_potential\<close>\<close>

text \<open>\<^verbatim>\<open>self.V\<close> is assigned before the Hamiltonian is rebuilt: an exception of
  \<^verbatim>\<open>diags\<close> or of the sum leaves the new \<^verbatim>\<open>self.V\<close> beside the old \<^verbatim>\<open>self.H\<close>.\<close>

definition update_potential :: "potential \<Rightarrow> sim \<Rightarrow> outcome" where
  "update_potential new_potential s =
     (let V = (case new_potential of Callable f \<Rightarrow> f (self_x s) | Array a \<Rightarrow> a);
          s1 = s\<lparr>self_V := V\<rparr>
      in case diags [V] [0] (self_N s) of
           Inl e \<Rightarrow> Inl (e, s1)
         | Inr DV \<Rightarrow>
             (case mat_add (self_T s) DV of
                Inl e \<Rightarrow> Inl (e, s1)
              | Inr H \<Rightarrow> Inr (s1\<lparr>self_H := H, self_U_matrix := None\<rparr>)))"

subsection \<open>The potentials of \<^verbatim>\<open>simulator.py\<close>\<close>

definition infinite_well :: "real list \<Rightarrow> real list" where
  "infinite_well x = map (\<lambda>_. 0) x"

definition barrier_potential :: "real list \<Rightarrow> real \<Rightarrow> real \<Rightarrow> real \<Rightarrow> real list" where
  "barrier_potential x barrier_height barrier_width barrier_center =
     map (\<lambda>xi. if xi > barrier_center - barrier_width / 2
                  \<and> xi < barrier_center + barrier_width / 2
               then barrier_height else 0) x"

section \<open>Predicates and sample objects\<close>

text \<open>The object an outcome leaves behind, raised or returned.\<close>

fun left_by :: "outcome \<Rightarrow> sim" where
  "left_by (Inl (e, s)) = s"
| "left_by (Inr s) = s"

text \<open>Successive calls of \<^verbatim>\<open>update_potential\<close>, each on the object the call before
  left.\<close>

definition update_potentials :: "potential list \<Rightarrow> sim \<Rightarrow> sim" where
  "update_potentials ps s = foldl (\<lambda>s' p. left_by (update_potential p s')) s ps"

text \<open>What is asked of scipy's \<^verbatim>\<open>expm_multiply\<close> for the Hamiltonian of \<open>s\<close>: on an
  array of length \<open>N\<close> it returns an array of length \<open>N\<close>. (It raises on another
  length.)\<close>

definition propagator_ok :: "propagator \<Rightarrow> sim \<Rightarrow> bool" where
  "propagator_ok em s \<longleftrightarrow>
     (\<forall>v. length v = nat (self_N s) \<longrightarrow>
        (\<exists>w. em (self_H s) (self_dt s) (self_hbar s) v = Inr w \<and> length w = nat (self_N s)))"

text \<open>A wavefunction of length \<open>N\<close> is installed.\<close>

definition ready :: "sim \<Rightarrow> bool" where
  "ready s \<longleftrightarrow>
     (\<exists>a. self_psi s = Some a \<and> a < length (store s)
        \<and> length (store s ! a) = nat (self_N s))"

text \<open>\<^verbatim>\<open>QuantumSimulator(L=4.0, N=2)\<close>, the same object after
  \<^verbatim>\<open>set_initial_wavefunction(np.array([1, 0j]))\<close>, and a propagator that returns its
  argument.\<close>

definition demo_sim :: sim where
  "demo_sim = \<lparr>self_L = 4, self_N = 2, self_m = 1, self_hbar = 1, self_dt = 1 / 1000,
     self_dx = 4, self_x = [0, 4], self_V = [0, 0],
     self_T = [[1 / 16, - (1 / 32)], [- (1 / 32), 1 / 16]],
     self_H = [[1 / 16, - (1 / 32)], [- (1 / 32), 1 / 16]],
     self_U_matrix = None, self_psi = None, self_time = 0, self_history = [], store = []\<rparr>"

definition demo_installed :: sim where
  "demo_installed = demo_sim\<lparr>store := [[Fin (1 / 2), Fin 0], [Fin (1 / 2), Fin 0]],
     self_psi := Some 0, self_time := 0, self_history := [1]\<rparr>"

definition hold :: propagator where
  "hold H dt hbar v = Inr v"

text \<open>The array \<^verbatim>\<open>update_potential\<close> and \<^verbatim>\<open>__init__\<close> take from a potential given as a
  function or, for \<^verbatim>\<open>update_potential\<close>, as an array.\<close>

definition given_array :: "potential \<Rightarrow> real list \<Rightarrow> real list" where
  "given_array p x = (case p of Callable f \<Rightarrow> f x | Array a \<Rightarrow> a)"

text \<open>An \<open>n \<times> n\<close> matrix, and the matrix \<open>T + diag V\<close> in the words of the specification:
  entry \<open>(i, j)\<close> is that of \<open>T\<close>, with \<open>V\<^sub>i\<close> added on the main diagonal.\<close>

definition square :: "int \<Rightarrow> matrix \<Rightarrow> bool" where
  "square n A \<longleftrightarrow> 0 \<le> n \<and> map length A = replicate (nat n) (nat n)"

definition add_diag :: "matrix \<Rightarrow> real list \<Rightarrow> matrix" where
  "add_diag A V =
     map (\<lambda>i. map (\<lambda>j. A ! i ! j + (if i = j then V ! i else 0)) [0..<length A])
       [0..<length A]"

text \<open>The tridiagonal matrix of the specification: \<open>2k\<close> on the main diagonal, \<open>- k\<close> on
  the two diagonals beside it, zero elsewhere.\<close>

definition tridiagonal :: "nat \<Rightarrow> real \<Rightarrow> matrix" where
  "tridiagonal n k =
     map (\<lambda>i. map (\<lambda>j. if i = j then 2 * k else if i = Suc j \<or> j = Suc i then - k else 0)
                [0..<n]) [0..<n]"

text \<open>The grid of the specification: \<open>N\<close> points from 0, \<open>L / (N - 1)\<close> apart.\<close>

definition grid :: "real \<Rightarrow> int \<Rightarrow> real list" where
  "grid L N = map (\<lambda>i. real i * (L / real_of_int (N - 1))) [0..<nat N]"

text \<open>A propagator that raises, as scipy's does, on an array whose length is not that
  of the matrix, and returns its argument otherwise.\<close>

definition shape_checked :: propagator where
  "shape_checked H dt hbar v =
     (if length v = length H then Inr v
      else Inl (ValueError ''shapes of matrices A and B are not compatible''))"

text \<open>The simulator of two grid points with \<^verbatim>\<open>dt=2**-10\<close>, before and after
  \<^verbatim>\<open>set_initial_wavefunction(np.array([1, 0j]))\<close>; and the same two with
  \<^verbatim>\<open>dt=0.0001\<close>, which as a double is \<open>7378697629483821 / 2\<^sup>6\<^sup>6\<close>.\<close>

definition tick_sim :: sim where
  "tick_sim = demo_sim\<lparr>self_dt := 1 / 1024\<rparr>"

definition tick_installed :: sim where
  "tick_installed = demo_installed\<lparr>self_dt := 1 / 1024\<rparr>"

definition fine_sim :: sim where
  "fine_sim = demo_sim\<lparr>self_dt := 7378697629483821 / 73786976294838206464\<rparr>"

definition fine_installed :: sim where
  "fine_installed = demo_installed\<lparr>self_dt := 7378697629483821 / 73786976294838206464\<rparr>"

section \<open>The sample objects are the simulator's\<close>

lemma demo_init: "init 4 2 1 1 (1 / 1000) None = Inr demo_sim"
  by (simp add: init_def initial_potential_def py_div_def np_linspace_def np_zeros_def
      kinetic_diagonals_def
      np_ones_def diags_def fit_diagonal_def diag_entry_def mat_scale_def mat_add_def
      demo_sim_def numeral_2_eq_2 upt_conv_Cons Let_def)

lemma demo_install: "set_initial_wavefunction [1, 0] demo_sim = Inr demo_installed"
  by (simp add: set_initial_wavefunction_def normalized_def norm_sq_def np_sum_def
      demo_sim_def demo_installed_def Let_def)

lemma hold_ok: "propagator_ok hold s"
  by (simp add: propagator_ok_def hold_def)

section \<open>Rounding to a double\<close>

lemma pow2_powr: "pow2 n = 2 powr real_of_int n"
  by (simp add: pow2_def powr_real_of_int inverse_eq_divide)

lemma pow2_add: "pow2 (a + b) = pow2 a * pow2 b"
  by (simp only: pow2_powr of_int_add powr_add)

lemma pow2_pos: "0 < pow2 n"
  by (simp add: pow2_powr)

lemma pow2_cancel: "pow2 (52 - e) * pow2 (e - 52) = 1"
proof -
  have "pow2 (52 - e) * pow2 (e - 52) = pow2 ((52 - e) + (e - 52))"
    by (simp only: pow2_add)
  also have "\<dots> = 1"
    by (simp add: pow2_def)
  finally show ?thesis .
qed

lemma pow2_less: "pow2 a < pow2 b \<Longrightarrow> a < b"
  by (simp add: pow2_powr)

lemma round_even_int: "round_even (real_of_int n) = n"
  by (simp add: round_even_def)

lemma round_even_near: "\<bar>real_of_int (round_even y) - y\<bar> \<le> 1 / 2"
  unfolding round_even_def Let_def by (auto simp: abs_if) linarith+

lemma binade_eq:
  assumes "pow2 e \<le> \<bar>x\<bar>" and "\<bar>x\<bar> < pow2 (e + 1)"
  shows "binade x = e"
proof -
  from assms(1) pow2_pos [of e] have "0 < \<bar>x\<bar>"
    by linarith
  then show ?thesis
    unfolding binade_def using assms by (simp add: floor_log_eq_powr_iff pow2_powr)
qed

lemma binade_bounds:
  assumes "x \<noteq> 0"
  shows "pow2 (binade x) \<le> \<bar>x\<bar>" and "\<bar>x\<bar> < pow2 (binade x + 1)"
proof -
  from assms have "0 < \<bar>x\<bar>"
    by simp
  from floor_log_eq_powr_iff [OF this, of 2 "binade x"]
  show "pow2 (binade x) \<le> \<bar>x\<bar>" and "\<bar>x\<bar> < pow2 (binade x + 1)"
    by (simp_all add: binade_def pow2_powr)
qed

lemma round_double_error: "\<bar>round_double x - x\<bar> \<le> \<bar>x\<bar> / 2 ^ 53"
proof (cases "x = 0")
  case True
  then show ?thesis
    by (simp add: round_double_def)
next
  case False
  let ?e = "binade x"
  let ?u = "pow2 (?e - 52)"
  let ?y = "x * pow2 (52 - ?e)"
  have u: "0 < ?u"
    by (rule pow2_pos)
  have xy: "x = ?y * ?u"
    using pow2_cancel [of ?e] by (simp add: mult.assoc)
  have "round_double x - x = real_of_int (round_even ?y) * ?u - ?y * ?u"
    using False xy by (simp add: round_double_def)
  also have "\<dots> = (real_of_int (round_even ?y) - ?y) * ?u"
    by (simp only: left_diff_distrib)
  finally have "\<bar>round_double x - x\<bar> = \<bar>real_of_int (round_even ?y) - ?y\<bar> * ?u"
    using u by (simp add: abs_mult)
  also have "\<dots> \<le> 1 / 2 * ?u"
    using round_even_near [of ?y] u by (intro mult_right_mono) simp_all
  also have "1 / 2 * ?u = pow2 ?e / 2 ^ 53"
  proof -
    have "?u = pow2 (?e + (- 52))"
      by simp
    also have "\<dots> = pow2 ?e * pow2 (- 52)"
      by (rule pow2_add)
    also have "pow2 (- 52) = 1 / 2 ^ 52"
      by (simp add: pow2_def)
    finally show ?thesis
      by simp
  qed
  also have "\<dots> \<le> \<bar>x\<bar> / 2 ^ 53"
    using binade_bounds(1) [OF False] by (simp add: divide_right_mono)
  finally show ?thesis .
qed

lemma round_double_int:
  assumes "\<bar>k\<bar> < 2 ^ 53"
  shows "round_double (real_of_int k) = real_of_int k"
proof (cases "k = 0")
  case True
  then show ?thesis
    by (simp add: round_double_def)
next
  case False
  let ?x = "real_of_int k"
  let ?e = "binade ?x"
  from False have x: "?x \<noteq> 0"
    by simp
  have "pow2 ?e \<le> \<bar>?x\<bar>"
    by (rule binade_bounds(1) [OF x])
  also have "\<bar>?x\<bar> < 2 ^ 53"
    using assms by (metis of_int_abs of_int_less_numeral_power_cancel_iff)
  also have "(2 :: real) ^ 53 = pow2 53"
    by (simp add: pow2_def)
  finally have "?e < 53"
    by (rule pow2_less)
  then have p: "pow2 (52 - ?e) = 2 ^ nat (52 - ?e)"
    by (simp add: pow2_def)
  have "?x * pow2 (52 - ?e) = real_of_int (k * 2 ^ nat (52 - ?e))"
    unfolding p by simp
  then have r: "round_even (?x * pow2 (52 - ?e)) = k * 2 ^ nat (52 - ?e)"
    by (simp only: round_even_int)
  have "round_double ?x = real_of_int (k * 2 ^ nat (52 - ?e)) * pow2 (?e - 52)"
    using x by (simp only: round_double_def r if_False)
  also have "\<dots> = ?x * (pow2 (52 - ?e) * pow2 (?e - 52))"
    unfolding p by simp
  also have "\<dots> = ?x"
    by (simp only: pow2_cancel mult_1_right)
  finally show ?thesis .
qed

lemma round_double_in_binade:
  assumes "pow2 e \<le> \<bar>x\<bar>" and "\<bar>x\<bar> < pow2 (e + 1)"
  shows "round_double x = real_of_int (round_even (x * pow2 (52 - e))) * pow2 (e - 52)"
proof -
  from assms(1) pow2_pos [of e] have "x \<noteq> 0"
    by auto
  then show ?thesis
    by (simp add: round_double_def binade_eq [OF assms])
qed

lemma fine_quotient:
  "round_double ((1 / 2) / (7378697629483821 / 73786976294838206464)) = 5000"
proof -
  let ?q = "(1 / 2) / (7378697629483821 / 73786976294838206464) :: real"
  have b: "pow2 12 \<le> \<bar>?q\<bar>" "\<bar>?q\<bar> < pow2 (12 + 1)"
    by (simp_all add: pow2_def)
  have r: "round_even (?q * pow2 (52 - 12)) = 5497558138880000"
    by (simp add: round_even_def pow2_def Let_def)
  show ?thesis
    unfolding round_double_in_binade [OF b] r by (simp add: pow2_def)
qed

lemma fine_floor: "\<lfloor>(1 / 2) / (7378697629483821 / 73786976294838206464 :: real)\<rfloor> = 4999"
  by simp

section \<open>Stepping and the history\<close>

lemma tick_install: "set_initial_wavefunction [1, 0] tick_sim = Inr tick_installed"
  by (simp add: set_initial_wavefunction_def normalized_def norm_sq_def np_sum_def
      tick_sim_def tick_installed_def demo_sim_def demo_installed_def Let_def)

lemma fine_install: "set_initial_wavefunction [1, 0] fine_sim = Inr fine_installed"
  by (simp add: set_initial_wavefunction_def normalized_def norm_sq_def np_sum_def
      fine_sim_def fine_installed_def demo_sim_def demo_installed_def Let_def)

lemma nat_py_int: "nat (py_int r) = nat \<lfloor>r\<rfloor>"
  by (auto simp: py_int_def)

lemma install_ready:
  assumes "length psi0 = nat (self_N s)"
  shows "\<exists>s0. set_initial_wavefunction psi0 s = Inr s0 \<and> ready s0
           \<and> length (self_history s0) = 1 \<and> self_dt s0 = self_dt s
           \<and> (propagator_ok em s0 \<longleftrightarrow> propagator_ok em s)"
  using assms
  by (simp add: set_initial_wavefunction_def ready_def normalized_def propagator_ok_def
      Let_def nth_append)

lemma step_ready:
  assumes "propagator_ok em s" and "ready s"
  shows "\<exists>s'. step em s = Inr s' \<and> ready s' \<and> propagator_ok em s'
           \<and> self_history s' = self_history s @ [Suc (length (store s))]
           \<and> self_dt s' = self_dt s"
proof -
  from assms(2) obtain a where a: "self_psi s = Some a" "a < length (store s)"
      "length (store s ! a) = nat (self_N s)"
    by (auto simp: ready_def)
  from assms(1) a(3) obtain w
    where w: "em (self_H s) (self_dt s) (self_hbar s) (store s ! a) = Inr w"
      "length w = nat (self_N s)"
    by (auto simp: propagator_ok_def)
  show ?thesis
    using a w assms(1)
    by (simp add: step_def ready_def propagator_ok_def Let_def nth_append)
qed

lemma step_loop_ready:
  "propagator_ok em s \<Longrightarrow> ready s \<Longrightarrow>
     \<exists>s'. step_loop em n s = Inr s' \<and> ready s' \<and> propagator_ok em s'
        \<and> length (self_history s') = length (self_history s) + n
        \<and> self_dt s' = self_dt s"
proof (induction n arbitrary: s)
  case 0
  then show ?case by simp
next
  case (Suc n)
  from step_ready [OF Suc.prems] obtain s1
    where s1: "step em s = Inr s1" "ready s1" "propagator_ok em s1"
      "self_history s1 = self_history s @ [Suc (length (store s))]"
      "self_dt s1 = self_dt s"
    by blast
  from Suc.IH [OF s1(3) s1(2)] s1 show ?case by auto
qed

lemma evolve_step_loop:
  "self_dt s \<noteq> 0 \<Longrightarrow>
     evolve em total_time s
       = step_loop em (nat \<lfloor>round_double (total_time / self_dt s)\<rfloor>) s"
  by (simp add: evolve_def py_float_div_def nat_py_int)

text \<open>
  C1, as the code has it. \<^verbatim>\<open>evolve\<close> computes \<^verbatim>\<open>int(total_time / self.dt)\<close>: the quotient
  is the double \<open>q\<close> that the float division rounds the exact quotient to, \<^verbatim>\<open>int\<close>
  truncates it towards zero, and \<^verbatim>\<open>range\<close> of a negative count is empty. The number of
  steps is \<open>max 0 \<lfloor>q\<rfloor>\<close>, which is neither the floor for a negative quotient nor always
  the floor of the exact quotient. For a simulator with \<open>dt \<noteq> 0\<close> whose propagator
  does not raise, and an initial array of length \<open>N\<close>: the history has length 1 after
  the installation and length \<open>1 + n\<close> after \<open>n\<close> calls of \<^verbatim>\<open>step\<close>;
  \<^verbatim>\<open>evolve(total_time)\<close> is exactly the run of \<open>nat \<lfloor>q\<rfloor>\<close> calls of \<^verbatim>\<open>step\<close> in a row and
  leaves a history of length \<open>1 + nat \<lfloor>q\<rfloor>\<close>; \<open>q\<close> is within the relative error \<open>2\<^sup>-\<^sup>5\<^sup>3\<close> of
  the exact quotient; and where the exact quotient is an integer \<open>k\<close> of magnitude below
  \<open>2\<^sup>5\<^sup>3\<close>, the count is \<open>max 0 k\<close>.
\<close>

theorem history_length_law:
  assumes "propagator_ok em s" and "length psi0 = nat (self_N s)" and "self_dt s \<noteq> 0"
  shows "\<exists>s0. set_initial_wavefunction psi0 s = Inr s0
           \<and> length (self_history s0) = 1
           \<and> (\<forall>n. \<exists>s'. step_loop em n s0 = Inr s' \<and> length (self_history s') = 1 + n)
           \<and> (\<forall>total_time. \<exists>s'.
                 evolve em total_time s0 = Inr s'
                 \<and> evolve em total_time s0
                     = step_loop em (nat \<lfloor>round_double (total_time / self_dt s)\<rfloor>) s0
                 \<and> length (self_history s')
                     = 1 + nat \<lfloor>round_double (total_time / self_dt s)\<rfloor>)
           \<and> (\<forall>total_time.
                 \<bar>round_double (total_time / self_dt s) - total_time / self_dt s\<bar>
                   \<le> \<bar>total_time / self_dt s\<bar> / 2 ^ 53)
           \<and> (\<forall>total_time k.
                 total_time / self_dt s = real_of_int k \<and> \<bar>k\<bar> < 2 ^ 53 \<longrightarrow>
                 nat \<lfloor>round_double (total_time / self_dt s)\<rfloor> = nat k)"
proof -
  from install_ready [OF assms(2), of em] obtain s0
    where s0: "set_initial_wavefunction psi0 s = Inr s0" "ready s0"
      "length (self_history s0) = 1" "self_dt s0 = self_dt s"
      "propagator_ok em s0 \<longleftrightarrow> propagator_ok em s"
    by blast
  have ok: "propagator_ok em s0"
    using s0(5) assms(1) by simp
  have loop: "\<exists>s'. step_loop em n s0 = Inr s' \<and> length (self_history s') = 1 + n" for n
    using step_loop_ready [OF ok s0(2), of n] s0(3) by auto
  have ev: "evolve em tt s0
      = step_loop em (nat \<lfloor>round_double (tt / self_dt s)\<rfloor>) s0" for tt
    using evolve_step_loop [of s0 em tt] s0(4) assms(3) by simp
  have tot: "\<forall>total_time. \<exists>s'.
                 evolve em total_time s0 = Inr s'
                 \<and> evolve em total_time s0
                     = step_loop em (nat \<lfloor>round_double (total_time / self_dt s)\<rfloor>) s0
                 \<and> length (self_history s')
                     = 1 + nat \<lfloor>round_double (total_time / self_dt s)\<rfloor>"
    using loop ev by auto
  have err: "\<forall>total_time.
                 \<bar>round_double (total_time / self_dt s) - total_time / self_dt s\<bar>
                   \<le> \<bar>total_time / self_dt s\<bar> / 2 ^ 53"
    by (simp only: round_double_error) simp
  have exact: "\<forall>total_time k.
                 total_time / self_dt s = real_of_int k \<and> \<bar>k\<bar> < 2 ^ 53 \<longrightarrow>
                 nat \<lfloor>round_double (total_time / self_dt s)\<rfloor> = nat k"
  proof (intro allI impI)
    fix total_time k
    assume a: "total_time / self_dt s = real_of_int k \<and> \<bar>k\<bar> < 2 ^ 53"
    then have "round_double (total_time / self_dt s) = real_of_int k"
      using round_double_int [of k] by simp
    then show "nat \<lfloor>round_double (total_time / self_dt s)\<rfloor> = nat k"
      by simp
  qed
  from s0(1) s0(3) loop tot err exact show ?thesis
    by blast
qed

theorem history_length_law_witness:
  "propagator_ok hold tick_sim \<and> length [1, 0 :: complex] = nat (self_N tick_sim)
   \<and> self_dt tick_sim \<noteq> 0
   \<and> set_initial_wavefunction [1, 0] tick_sim = Inr tick_installed
   \<and> length (self_history tick_installed) = 1
   \<and> 3 / 1024 / self_dt tick_sim = real_of_int 3 \<and> \<bar>3 :: int\<bar> < 2 ^ 53
   \<and> (\<exists>s'. evolve hold (3 / 1024) tick_installed = Inr s'
          \<and> length (self_history s') = 4)
   \<and> propagator_ok hold fine_sim \<and> length [1, 0 :: complex] = nat (self_N fine_sim)
   \<and> self_dt fine_sim \<noteq> 0
   \<and> set_initial_wavefunction [1, 0] fine_sim = Inr fine_installed
   \<and> (\<exists>s'. evolve hold (1 / 2) fine_installed = Inr s'
          \<and> length (self_history s') = 5001)"
proof -
  have h1: "propagator_ok hold tick_sim"
    by (rule hold_ok)
  have h2: "length [1, 0 :: complex] = nat (self_N tick_sim)"
    by (simp add: tick_sim_def demo_sim_def)
  have h3: "self_dt tick_sim \<noteq> 0"
    by (simp add: tick_sim_def)
  have q: "3 / 1024 / self_dt tick_sim = real_of_int 3"
    by (simp add: tick_sim_def)
  have k: "\<bar>3 :: int\<bar> < 2 ^ 53"
    by simp
  from history_length_law [OF h1 h2 h3] obtain s0
    where a: "set_initial_wavefunction [1, 0] tick_sim = Inr s0"
      and b: "\<And>tt. \<exists>s'. evolve hold tt s0 = Inr s'
                \<and> length (self_history s')
                    = 1 + nat \<lfloor>round_double (tt / self_dt tick_sim)\<rfloor>"
      and c: "\<And>tt k. tt / self_dt tick_sim = real_of_int k \<and> \<bar>k\<bar> < 2 ^ 53 \<Longrightarrow>
                nat \<lfloor>round_double (tt / self_dt tick_sim)\<rfloor> = nat k"
    by blast
  have e: "s0 = tick_installed"
    using a tick_install by simp
  from c [of "3 / 1024" 3] q k
  have n: "nat \<lfloor>round_double (3 / 1024 / self_dt tick_sim)\<rfloor> = 3"
    by simp
  from b [of "3 / 1024"] have 1: "\<exists>s'. evolve hold (3 / 1024) tick_installed = Inr s'
          \<and> length (self_history s') = 4"
    unfolding e n by simp
  have 2: "length (self_history tick_installed) = 1"
    by (simp add: tick_installed_def demo_installed_def)
  have g1: "propagator_ok hold fine_sim"
    by (rule hold_ok)
  have g2: "length [1, 0 :: complex] = nat (self_N fine_sim)"
    by (simp add: fine_sim_def demo_sim_def)
  have g3: "self_dt fine_sim \<noteq> 0"
    by (simp add: fine_sim_def)
  from history_length_law [OF g1 g2 g3] obtain f0
    where fa: "set_initial_wavefunction [1, 0] fine_sim = Inr f0"
      and fb: "\<And>tt. \<exists>s'. evolve hold tt f0 = Inr s'
                \<and> length (self_history s')
                    = 1 + nat \<lfloor>round_double (tt / self_dt fine_sim)\<rfloor>"
    by blast
  have fe: "f0 = fine_installed"
    using fa fine_install by simp
  have dtv: "self_dt fine_sim = 7378697629483821 / 73786976294838206464"
    by (simp add: fine_sim_def)
  have fn: "nat \<lfloor>round_double (1 / 2 / self_dt fine_sim)\<rfloor> = 5000"
    unfolding dtv fine_quotient by simp
  from fb [of "1 / 2"] have 3: "\<exists>s'. evolve hold (1 / 2) fine_installed = Inr s'
          \<and> length (self_history s') = 5001"
    unfolding fe fn by simp
  from h1 h2 h3 tick_install 2 q k 1 g1 g2 g3 fine_install 3 show ?thesis
    by blast
qed

text \<open>The claim as stated fails in both ways. For a negative \<^verbatim>\<open>total_time\<close>:
  \<^verbatim>\<open>evolve(-1.0)\<close> with \<^verbatim>\<open>dt=2**-10\<close> performs no step and leaves the history at length 1,
  where \<open>1 + \<lfloor>total_time / dt\<rfloor>\<close> is \<open>- 1023\<close>. And for the rounding: with \<^verbatim>\<open>dt=0.0001\<close>,
  \<^verbatim>\<open>evolve(0.5)\<close> performs 5000 steps and leaves a history of length 5001, where the
  floor of the quotient of the two doubles is 4999.\<close>

theorem history_length_law_counterexample:
  "evolve hold (- 1) tick_installed = Inr tick_installed
   \<and> length (self_history tick_installed) = 1
   \<and> \<lfloor>(- 1) / self_dt tick_installed\<rfloor> = - 1024
   \<and> int (length (self_history tick_installed))
       \<noteq> 1 + \<lfloor>(- 1) / self_dt tick_installed\<rfloor>
   \<and> evolve hold (1 / 2) fine_installed = step_loop hold 5000 fine_installed
   \<and> length (self_history (left_by (evolve hold (1 / 2) fine_installed))) = 5001
   \<and> \<lfloor>(1 / 2) / self_dt fine_installed\<rfloor> = 4999"
proof -
  have d: "self_dt tick_installed \<noteq> 0"
    by (simp add: tick_installed_def)
  have q: "(- 1) / self_dt tick_installed = real_of_int (- 1024)"
    by (simp add: tick_installed_def)
  have "round_double (real_of_int (- 1024)) = real_of_int (- 1024)"
    by (rule round_double_int) simp
  then have n: "nat \<lfloor>round_double ((- 1) / self_dt tick_installed)\<rfloor> = 0"
    unfolding q by simp
  have 1: "evolve hold (- 1) tick_installed = Inr tick_installed"
    unfolding evolve_step_loop [OF d] n by simp
  have 2: "length (self_history tick_installed) = 1"
    by (simp add: tick_installed_def demo_installed_def)
  have 3: "\<lfloor>(- 1) / self_dt tick_installed\<rfloor> = - 1024"
    by (simp add: tick_installed_def)
  have 4: "int (length (self_history tick_installed))
       \<noteq> 1 + \<lfloor>(- 1) / self_dt tick_installed\<rfloor>"
    unfolding 2 3 by simp
  have fd: "self_dt fine_installed \<noteq> 0"
    by (simp add: fine_installed_def)
  have dtv: "self_dt fine_installed = 7378697629483821 / 73786976294838206464"
    by (simp add: fine_installed_def)
  have fn: "nat \<lfloor>round_double (1 / 2 / self_dt fine_installed)\<rfloor> = 5000"
    unfolding dtv fine_quotient by simp
  have 5: "evolve hold (1 / 2) fine_installed = step_loop hold 5000 fine_installed"
    unfolding evolve_step_loop [OF fd] fn ..
  have r: "ready fine_installed"
    by (simp add: ready_def fine_installed_def demo_installed_def demo_sim_def)
  from step_loop_ready [OF hold_ok r, of 5000] obtain s'
    where "step_loop hold 5000 fine_installed = Inr s'"
      and "length (self_history s') = length (self_history fine_installed) + 5000"
    by blast
  then have 6: "length (self_history (left_by (evolve hold (1 / 2) fine_installed))) = 5001"
    unfolding 5 by (simp add: fine_installed_def demo_installed_def)
  have 7: "\<lfloor>(1 / 2) / self_dt fine_installed\<rfloor> = 4999"
    by (simp add: fine_installed_def)
  from 1 2 3 4 5 6 7 show ?thesis
    by blast
qed

section \<open>Installing a wavefunction\<close>

lemma np_sum_Fin: "np_sum (map Fin xs) = Fin (sum_list xs)"
  by (induction xs) (simp_all add: np_sum_def)

lemma abs_sq_Fin: "map np_abs_sq (map Fin zs) = map Fin (map (\<lambda>z. (cmod z)\<^sup>2) zs)"
  by simp

lemma norm_sq_Fin:
  "norm_sq (map Fin zs) dx = Fin (sum_list (map (\<lambda>z. (cmod z)\<^sup>2) zs) * dx)"
  unfolding norm_sq_def abs_sq_Fin np_sum_Fin by simp

lemma sum_sq_divide:
  "sum_list (map (\<lambda>z. (cmod (z / complex_of_real c))\<^sup>2) zs)
     = sum_list (map (\<lambda>z. (cmod z)\<^sup>2) zs) / c\<^sup>2"
  by (induction zs) (simp_all add: norm_divide power_divide add_divide_distrib)

lemma normalized_Fin:
  assumes "0 < sum_list (map (\<lambda>z. (cmod z)\<^sup>2) zs) * dx"
  shows "normalized (map Fin zs) dx
     = map Fin (map (\<lambda>z. z / complex_of_real
                             (sqrt (sum_list (map (\<lambda>z. (cmod z)\<^sup>2) zs) * dx))) zs)"
proof -
  from assms have "sum_list (map (\<lambda>z. (cmod z)\<^sup>2) zs) \<noteq> 0" and "dx \<noteq> 0"
    by auto
  with assms show ?thesis
    unfolding normalized_def norm_sq_Fin by (simp add: o_def)
qed

lemma norm_sq_normalized:
  assumes "0 < sum_list (map (\<lambda>z. (cmod z)\<^sup>2) zs) * dx"
  shows "norm_sq (normalized (map Fin zs) dx) dx = Fin 1"
proof -
  let ?S = "sum_list (map (\<lambda>z. (cmod z)\<^sup>2) zs)"
  have "norm_sq (normalized (map Fin zs) dx) dx = Fin (?S / (sqrt (?S * dx))\<^sup>2 * dx)"
    unfolding normalized_Fin [OF assms] norm_sq_Fin by (simp add: o_def sum_sq_divide)
  also have "?S / (sqrt (?S * dx))\<^sup>2 * dx = 1"
  proof -
    from assms have "?S \<noteq> 0" and "dx \<noteq> 0"
      by auto
    with assms show ?thesis
      by simp
  qed
  finally show ?thesis .
qed

lemma normalized_NonFin:
  assumes "\<not> 0 < sum_list (map (\<lambda>z. (cmod z)\<^sup>2) zs) * dx"
  shows "normalized (map Fin zs) dx = replicate (length zs) NonFin"
proof -
  have "np_div (Fin z) (np_sqrt (norm_sq (map Fin zs) dx)) = NonFin" for z
    using assms unfolding norm_sq_Fin by simp
  then show ?thesis
    by (simp add: normalized_def o_def map_replicate_const)
qed

lemma norm_sq_NonFin: "norm_sq (replicate n NonFin) dx \<noteq> Fin 1"
  by (cases n) (simp_all add: norm_sq_def np_sum_def)

lemma install_outcome:
  "set_initial_wavefunction psi0 s =
     Inr (s\<lparr>store := store s @ [normalized (map Fin psi0) (self_dx s),
                                  normalized (map Fin psi0) (self_dx s)],
            self_psi := Some (length (store s)), self_time := 0,
            self_history := [Suc (length (store s))]\<rparr>)"
  by (simp add: set_initial_wavefunction_def Let_def)

text \<open>
  C2. \<open>\<Sum>|z|\<^sup>2 \<cdot> dx\<close> is the square of the norm; the sum is never negative, so the
  hypothesis says that the norm is a real number other than zero (the grid spacing is
  positive and an entry is not zero). Then the call returns, and it leaves:
  \<^verbatim>\<open>self.psi\<close> at a new array \<open>a\<close> holding every entry divided by the norm;
  \<open>\<Sum>|\<psi>|\<^sup>2 \<cdot> dx = 1\<close> on it; the clock at zero; and the history with the one entry
  \<open>b\<close>, an array other than \<open>a\<close> (and other than every array there was) with the same
  contents, so that writing into \<^verbatim>\<open>self.psi\<close> in place leaves the history's entry as
  it is. Nothing is asked of the length of the array.
\<close>

theorem set_initial_wavefunction_normalizes:
  assumes "0 < sum_list (map (\<lambda>z. (cmod z)\<^sup>2) psi0) * self_dx s"
  shows "\<exists>s' a b. set_initial_wavefunction psi0 s = Inr s'
           \<and> self_psi s' = Some a \<and> self_time s' = 0 \<and> self_history s' = [b]
           \<and> store s' ! a
               = map (\<lambda>z. Fin (z / complex_of_real
                       (sqrt (sum_list (map (\<lambda>z. (cmod z)\<^sup>2) psi0) * self_dx s)))) psi0
           \<and> norm_sq (store s' ! a) (self_dx s') = Fin 1
           \<and> store s' ! b = store s' ! a
           \<and> a \<noteq> b \<and> a < length (store s') \<and> b < length (store s')
           \<and> length (store s) \<le> a \<and> length (store s) \<le> b
           \<and> take (length (store s)) (store s') = store s
           \<and> (\<forall>v. (store s')[a := v] ! b = store s' ! b)"
proof -
  let ?v = "normalized (map Fin psi0) (self_dx s)"
  let ?a = "length (store s)"
  let ?s' = "s\<lparr>store := store s @ [?v, ?v], self_psi := Some ?a, self_time := 0,
               self_history := [Suc ?a]\<rparr>"
  have 1: "set_initial_wavefunction psi0 s = Inr ?s'"
    by (rule install_outcome)
  have c1: "self_psi ?s' = Some ?a" and c2: "self_time ?s' = 0"
    and c3: "self_history ?s' = [Suc ?a]"
    by simp_all
  have c4: "store ?s' ! ?a
      = map (\<lambda>z. Fin (z / complex_of_real
              (sqrt (sum_list (map (\<lambda>z. (cmod z)\<^sup>2) psi0) * self_dx s)))) psi0"
    using normalized_Fin [OF assms] by (simp add: nth_append o_def)
  have c5: "norm_sq (store ?s' ! ?a) (self_dx ?s') = Fin 1"
    using norm_sq_normalized [OF assms] by (simp add: nth_append)
  have c6: "store ?s' ! Suc ?a = store ?s' ! ?a"
    by (simp add: nth_append)
  have c7: "?a \<noteq> Suc ?a" and c8: "?a < length (store ?s')"
    and c9: "Suc ?a < length (store ?s')" and c10: "length (store s) \<le> ?a"
    and c11: "length (store s) \<le> Suc ?a"
    and c12: "take (length (store s)) (store ?s') = store s"
    by simp_all
  have c13: "\<forall>v. (store ?s')[?a := v] ! Suc ?a = store ?s' ! Suc ?a"
    by (simp add: nth_append)
  show ?thesis
    by (intro exI conjI) (rule 1 c1 c2 c3 c4 c5 c6 c7 c8 c9 c10 c11 c12 c13)+
qed

theorem set_initial_wavefunction_normalizes_witness:
  "0 < sum_list (map (\<lambda>z. (cmod z)\<^sup>2) [1, 0]) * self_dx demo_sim
   \<and> set_initial_wavefunction [1, 0] demo_sim = Inr demo_installed
   \<and> self_psi demo_installed = Some 0 \<and> self_history demo_installed = [1]
   \<and> store demo_installed ! 0 = [Fin (1 / 2), Fin 0]
   \<and> norm_sq (store demo_installed ! 0) (self_dx demo_installed) = Fin 1"
proof -
  have h: "0 < sum_list (map (\<lambda>z. (cmod z)\<^sup>2) [1, 0]) * self_dx demo_sim"
    by (simp add: demo_sim_def)
  from set_initial_wavefunction_normalizes [OF h] obtain s' a
    where s': "set_initial_wavefunction [1, 0] demo_sim = Inr s'"
      and a: "self_psi s' = Some a"
      and n: "norm_sq (store s' ! a) (self_dx s') = Fin 1"
    by blast
  have e: "s' = demo_installed"
    using s' demo_install by simp
  have p: "self_psi demo_installed = Some 0"
    by (simp add: demo_installed_def)
  from a p have "a = 0"
    unfolding e by simp
  with n have "norm_sq (store demo_installed ! 0) (self_dx demo_installed) = Fin 1"
    unfolding e by simp
  moreover have "self_history demo_installed = [1]"
    and "store demo_installed ! 0 = [Fin (1 / 2), Fin 0]"
    by (simp_all add: demo_installed_def)
  ultimately show ?thesis
    using h demo_install p by blast
qed

text \<open>
  C10. An array whose norm is zero is not refused: the call returns, every entry of the
  array it installs is non-finite, and \<open>\<Sum>|\<psi>|\<^sup>2 \<cdot> dx\<close> of the installed array is not 1.
  What is more, whatever the array, \<open>\<Sum>|\<psi>|\<^sup>2 \<cdot> dx = 1\<close> holds after the call only if the
  norm of the argument was a real number other than zero.
\<close>

theorem zero_norm_not_refused:
  "(sum_list (map (\<lambda>z. (cmod z)\<^sup>2) psi0) * self_dx s = 0 \<longrightarrow>
      (\<exists>s' a. set_initial_wavefunction psi0 s = Inr s' \<and> self_psi s' = Some a
         \<and> a < length (store s')
         \<and> store s' ! a = replicate (length psi0) NonFin
         \<and> norm_sq (store s' ! a) (self_dx s') \<noteq> Fin 1))
   \<and> (\<forall>s' a. set_initial_wavefunction psi0 s = Inr s' \<and> self_psi s' = Some a
         \<and> norm_sq (store s' ! a) (self_dx s') = Fin 1 \<longrightarrow>
       0 < sum_list (map (\<lambda>z. (cmod z)\<^sup>2) psi0) * self_dx s)"
proof (intro conjI impI allI)
  assume z: "sum_list (map (\<lambda>z. (cmod z)\<^sup>2) psi0) * self_dx s = 0"
  have "\<not> 0 < sum_list (map (\<lambda>z. (cmod z)\<^sup>2) psi0) * self_dx s"
    unfolding z by simp
  then have v: "normalized (map Fin psi0) (self_dx s) = replicate (length psi0) NonFin"
    by (rule normalized_NonFin)
  show "\<exists>s' a. set_initial_wavefunction psi0 s = Inr s' \<and> self_psi s' = Some a
         \<and> a < length (store s')
         \<and> store s' ! a = replicate (length psi0) NonFin
         \<and> norm_sq (store s' ! a) (self_dx s') \<noteq> Fin 1"
    unfolding install_outcome v using norm_sq_NonFin by (simp add: nth_append)
next
  fix s' a
  assume p: "set_initial_wavefunction psi0 s = Inr s' \<and> self_psi s' = Some a
         \<and> norm_sq (store s' ! a) (self_dx s') = Fin 1"
  show "0 < sum_list (map (\<lambda>z. (cmod z)\<^sup>2) psi0) * self_dx s"
  proof (rule ccontr)
    assume "\<not> 0 < sum_list (map (\<lambda>z. (cmod z)\<^sup>2) psi0) * self_dx s"
    then have v: "normalized (map Fin psi0) (self_dx s) = replicate (length psi0) NonFin"
      by (rule normalized_NonFin)
    from p have "norm_sq (replicate (length psi0) NonFin) (self_dx s) = Fin 1"
      unfolding install_outcome v by (auto simp: nth_append)
    with norm_sq_NonFin show False
      by blast
  qed
qed

theorem zero_norm_not_refused_witness:
  "sum_list (map (\<lambda>z. (cmod z)\<^sup>2) [0, 0]) * self_dx demo_sim = 0
   \<and> (\<exists>s' a. set_initial_wavefunction [0, 0] demo_sim = Inr s' \<and> self_psi s' = Some a
         \<and> a < length (store s')
         \<and> store s' ! a = [NonFin, NonFin]
         \<and> norm_sq (store s' ! a) (self_dx s') \<noteq> Fin 1)
   \<and> set_initial_wavefunction [1, 0] demo_sim = Inr demo_installed
   \<and> self_psi demo_installed = Some 0
   \<and> norm_sq (store demo_installed ! 0) (self_dx demo_installed) = Fin 1
   \<and> 0 < sum_list (map (\<lambda>z. (cmod z)\<^sup>2) [1, 0]) * self_dx demo_sim"
proof -
  have z: "sum_list (map (\<lambda>z. (cmod z)\<^sup>2) [0, 0]) * self_dx demo_sim = 0"
    by simp
  have r: "replicate (length [0, 0 :: complex]) NonFin = [NonFin, NonFin :: complex np]"
    by (simp add: numeral_2_eq_2)
  have p: "self_psi demo_installed = Some 0"
    by (simp add: demo_installed_def)
  have n: "norm_sq (store demo_installed ! 0) (self_dx demo_installed) = Fin 1"
    by (simp add: demo_installed_def demo_sim_def norm_sq_def np_sum_def power_divide)
  from zero_norm_not_refused [of "[0, 0]" demo_sim] z
  have "\<exists>s' a. set_initial_wavefunction [0, 0] demo_sim = Inr s' \<and> self_psi s' = Some a
         \<and> a < length (store s')
         \<and> store s' ! a = [NonFin, NonFin]
         \<and> norm_sq (store s' ! a) (self_dx s') \<noteq> Fin 1"
    unfolding r by blast
  moreover from zero_norm_not_refused [of "[1, 0]" demo_sim] demo_install p n
  have "0 < sum_list (map (\<lambda>z. (cmod z)\<^sup>2) [1, 0]) * self_dx demo_sim"
    by blast
  ultimately show ?thesis
    using z demo_install p n by blast
qed

section \<open>Before a wavefunction is installed\<close>

text \<open>
  C3. With \<^verbatim>\<open>self.psi\<close> still \<^verbatim>\<open>None\<close>, \<^verbatim>\<open>step\<close> raises the error of the source,
  \<^verbatim>\<open>ValueError("Initial wavefunction not set")\<close>, and leaves the object as it was. The two
  observables have no such check: they fail inside \<^verbatim>\<open>np.abs\<close> with a \<^verbatim>\<open>TypeError\<close>.
  They return a value and assign nothing, so the object is as it was as well.
\<close>

theorem uninitialized_step_and_observables:
  assumes "self_psi s = None"
  shows "step em s = Inl (ValueError ''Initial wavefunction not set'', s)
         \<and> probability_density s = Inl TypeError
         \<and> expectation_position s = Inl TypeError"
  using assms by (simp add: step_def probability_density_def expectation_position_def)

theorem uninitialized_step_and_observables_witness:
  "self_psi demo_sim = None
   \<and> step hold demo_sim = Inl (ValueError ''Initial wavefunction not set'', demo_sim)
   \<and> probability_density demo_sim = Inl TypeError
   \<and> expectation_position demo_sim = Inl TypeError"
proof -
  have h: "self_psi demo_sim = None"
    by (simp add: demo_sim_def)
  from uninitialized_step_and_observables [OF h, of hold] h show ?thesis
    by simp
qed

section \<open>Arrays of another length\<close>

lemma update_potential_V: "self_V (left_by (update_potential p s))
    = (case p of Callable f \<Rightarrow> f (self_x s) | Array a \<Rightarrow> a)"
  by (simp add: update_potential_def Let_def split: sum.splits)

lemma update_potential_raised:
  "update_potential p s = Inl (e, s') \<Longrightarrow>
     s' = s\<lparr>self_V := (case p of Callable f \<Rightarrow> f (self_x s) | Array a \<Rightarrow> a)\<rparr>"
  by (auto simp: update_potential_def Let_def split: sum.splits)

text \<open>
  C4, as the code has it. Neither method compares a length with \<open>N\<close>.
  \<^verbatim>\<open>set_initial_wavefunction\<close> on an array of any length raises nothing: it installs the
  normalized array, of the length of the argument, and resets the clock and the
  history. \<^verbatim>\<open>update_potential\<close> assigns \<^verbatim>\<open>self.V\<close> before it rebuilds the Hamiltonian:
  the array given is \<^verbatim>\<open>self.V\<close> afterwards whether the call returns or raises, and
  when it raises the rest of the object is as it was.
\<close>

theorem no_length_check:
  "(\<exists>s' a. set_initial_wavefunction psi0 s = Inr s'
      \<and> self_psi s' = Some a \<and> a < length (store s')
      \<and> store s' ! a = normalized (map Fin psi0) (self_dx s)
      \<and> length (store s' ! a) = length psi0
      \<and> self_time s' = 0 \<and> length (self_history s') = 1)
   \<and> self_V (left_by (update_potential (Array v) s)) = v
   \<and> (\<forall>e s'. update_potential (Array v) s = Inl (e, s') \<longrightarrow> s' = s\<lparr>self_V := v\<rparr>)"
proof (intro conjI allI impI)
  show "\<exists>s' a. set_initial_wavefunction psi0 s = Inr s'
      \<and> self_psi s' = Some a \<and> a < length (store s')
      \<and> store s' ! a = normalized (map Fin psi0) (self_dx s)
      \<and> length (store s' ! a) = length psi0
      \<and> self_time s' = 0 \<and> length (self_history s') = 1"
    unfolding install_outcome by (simp add: nth_append normalized_def)
next
  show "self_V (left_by (update_potential (Array v) s)) = v"
    by (simp add: update_potential_V)
next
  fix e s'
  assume "update_potential (Array v) s = Inl (e, s')"
  from update_potential_raised [OF this] show "s' = s\<lparr>self_V := v\<rparr>"
    by simp
qed

theorem no_length_check_witness:
  "update_potential (Array []) demo_sim
     = Inl (ValueError ''Diagonal length does not agree with matrix size'',
            demo_sim\<lparr>self_V := []\<rparr>)
   \<and> self_V (left_by (update_potential (Array []) demo_sim)) = []
   \<and> (\<exists>s' a. set_initial_wavefunction [1] demo_sim = Inr s'
         \<and> self_psi s' = Some a \<and> length (store s' ! a) = length [1 :: complex])"
proof -
  have r: "update_potential (Array []) demo_sim
     = Inl (ValueError ''Diagonal length does not agree with matrix size'',
            demo_sim\<lparr>self_V := []\<rparr>)"
    by (simp add: update_potential_def diags_def fit_diagonal_def demo_sim_def Let_def)
  from no_length_check [of "[1]" demo_sim "[]"] r show ?thesis
    by auto
qed

text \<open>The claim as stated fails on both methods, on the simulator of two grid points:
  an initial array of length 1 is installed, and an empty potential array is left in
  \<^verbatim>\<open>self.V\<close> by the call that raises.\<close>

theorem no_length_check_counterexample:
  "length [1 :: complex] \<noteq> nat (self_N demo_sim)
   \<and> set_initial_wavefunction [1] demo_sim
       = Inr (demo_sim\<lparr>store := [[Fin (1 / 2)], [Fin (1 / 2)]], self_psi := Some 0,
                       self_time := 0, self_history := [1]\<rparr>)
   \<and> length ([] :: real list) \<noteq> nat (self_N demo_sim)
   \<and> left_by (update_potential (Array []) demo_sim) = demo_sim\<lparr>self_V := []\<rparr>
   \<and> demo_sim\<lparr>self_V := []\<rparr> \<noteq> demo_sim"
proof -
  have 1: "length [1 :: complex] \<noteq> nat (self_N demo_sim)"
    and 2: "length ([] :: real list) \<noteq> nat (self_N demo_sim)"
    by (simp_all add: demo_sim_def)
  have 3: "set_initial_wavefunction [1] demo_sim
       = Inr (demo_sim\<lparr>store := [[Fin (1 / 2)], [Fin (1 / 2)]], self_psi := Some 0,
                       self_time := 0, self_history := [1]\<rparr>)"
    by (simp add: set_initial_wavefunction_def normalized_def norm_sq_def np_sum_def
        demo_sim_def Let_def)
  have 4: "left_by (update_potential (Array []) demo_sim) = demo_sim\<lparr>self_V := []\<rparr>"
    by (simp add: update_potential_def diags_def fit_diagonal_def demo_sim_def Let_def)
  have "self_V (demo_sim\<lparr>self_V := []\<rparr>) \<noteq> self_V demo_sim"
    by (simp add: demo_sim_def)
  then have 5: "demo_sim\<lparr>self_V := []\<rparr> \<noteq> demo_sim"
    by metis
  from 1 2 3 4 5 show ?thesis
    by blast
qed

section \<open>Rebuilding the Hamiltonian\<close>

lemma square_nth:
  assumes "square n A"
  shows "length A = nat n" and "i < nat n \<Longrightarrow> length (A ! i) = nat n"
proof -
  from assms have m: "map length A = replicate (nat n) (nat n)"
    by (simp add: square_def)
  from arg_cong [OF m, of length] show l: "length A = nat n"
    by simp
  assume i: "i < nat n"
  from arg_cong [OF m, of "\<lambda>xs. xs ! i"] i l show "length (A ! i) = nat n"
    by simp
qed

lemma diags_main:
  assumes "0 \<le> n" and "length V = nat n"
  shows "diags [V] [0] n
     = Inr (map (\<lambda>i. map (\<lambda>j. if i = j then V ! i else 0) [0..<nat n]) [0..<nat n])"
  using assms by (auto simp: diags_def fit_diagonal_def diag_entry_def)

lemma rebuild:
  assumes "square n A" and "length V = nat n"
  shows "\<exists>D. diags [V] [0] n = Inr D \<and> mat_add A D = Inr (add_diag A V)
           \<and> square n (add_diag A V)"
proof -
  let ?D = "map (\<lambda>i. map (\<lambda>j. if i = j then V ! i else 0) [0..<nat n]) [0..<nat n]"
  from assms(1) have n: "0 \<le> n"
    by (simp add: square_def)
  have d: "diags [V] [0] n = Inr ?D"
    by (rule diags_main [OF n assms(2)])
  have lA: "length A = nat n" and rA: "\<And>i. i < nat n \<Longrightarrow> length (A ! i) = nat n"
    using square_nth [OF assms(1)] by simp_all
  have shape: "map length A = map length ?D"
    using assms(1) by (simp add: square_def o_def map_replicate_const)
  have sum: "map2 (map2 (+)) A ?D = add_diag A V"
    by (rule nth_equalityI) (auto simp: add_diag_def lA rA intro!: nth_equalityI)
  have sq: "square n (add_diag A V)"
    using n by (simp add: square_def add_diag_def lA o_def map_replicate_const)
  from d shape sum sq show ?thesis
    by (simp add: mat_add_def)
qed

lemma update_potential_returns:
  assumes "square (self_N s) (self_T s)"
    and "length (given_array p (self_x s)) = nat (self_N s)"
  shows "update_potential p s
     = Inr (s\<lparr>self_V := given_array p (self_x s),
              self_H := add_diag (self_T s) (given_array p (self_x s)),
              self_U_matrix := None\<rparr>)"
proof -
  from rebuild [OF assms] obtain D
    where "diags [given_array p (self_x s)] [0] (self_N s) = Inr D"
      and "mat_add (self_T s) D = Inr (add_diag (self_T s) (given_array p (self_x s)))"
    by blast
  then show ?thesis
    by (simp add: update_potential_def given_array_def Let_def)
qed

lemma update_potential_left:
  "self_T (left_by (update_potential p s)) = self_T s"
  "self_N (left_by (update_potential p s)) = self_N s"
  "self_x (left_by (update_potential p s)) = self_x s"
  "self_psi (left_by (update_potential p s)) = self_psi s"
  "self_time (left_by (update_potential p s)) = self_time s"
  "self_history (left_by (update_potential p s)) = self_history s"
  "store (left_by (update_potential p s)) = store s"
  by (simp_all add: update_potential_def Let_def split: sum.splits)

lemma update_potentials_left:
  "self_T (update_potentials ps s) = self_T s
   \<and> self_N (update_potentials ps s) = self_N s
   \<and> self_x (update_potentials ps s) = self_x s
   \<and> self_psi (update_potentials ps s) = self_psi s
   \<and> self_time (update_potentials ps s) = self_time s
   \<and> self_history (update_potentials ps s) = self_history s
   \<and> store (update_potentials ps s) = store s"
proof (induction ps arbitrary: s)
  case Nil
  show ?case
    by (simp add: update_potentials_def)
next
  case (Cons p ps)
  have "update_potentials (p # ps) s = update_potentials ps (left_by (update_potential p s))"
    by (simp add: update_potentials_def)
  with Cons.IH [of "left_by (update_potential p s)"] show ?case
    by (simp add: update_potential_left)
qed

text \<open>
  C7, as the code has it. Whatever potentials were given before, as arrays or as
  functions of the grid and of whatever length, and whether those calls returned or
  raised: the kinetic operator, the wavefunction, the clock, the history and the
  arrays they refer to are those of the start, and a further call of
  \<^verbatim>\<open>update_potential\<close>, returning or raising, leaves the potential it was given in
  \<^verbatim>\<open>self.V\<close>. The Hamiltonian is rebuilt as \<open>T + diag V\<close> when that potential has length
  \<open>N\<close> (the kinetic operator being \<open>N \<times> N\<close>, as \<^verbatim>\<open>__init__\<close> leaves it): then the call
  returns, with the new array in \<^verbatim>\<open>self.V\<close> and \<open>T + diag V\<close> in \<^verbatim>\<open>self.H\<close>, and the same
  five as they were.
\<close>

theorem update_potential_frame:
  "self_T (update_potentials ps s) = self_T s
   \<and> self_psi (update_potentials ps s) = self_psi s
   \<and> self_time (update_potentials ps s) = self_time s
   \<and> self_history (update_potentials ps s) = self_history s
   \<and> store (update_potentials ps s) = store s
   \<and> self_V (left_by (update_potential p (update_potentials ps s)))
       = given_array p (self_x s)
   \<and> (square (self_N s) (self_T s)
        \<and> length (given_array p (self_x s)) = nat (self_N s) \<longrightarrow>
      (\<exists>s'. update_potential p (update_potentials ps s) = Inr s'
         \<and> self_V s' = given_array p (self_x s)
         \<and> self_H s' = add_diag (self_T s) (given_array p (self_x s))
         \<and> self_T s' = self_T s \<and> self_psi s' = self_psi s
         \<and> self_time s' = self_time s \<and> self_history s' = self_history s
         \<and> store s' = store s))"
proof -
  let ?s = "update_potentials ps s"
  note left = update_potentials_left [of ps s]
  from left have x: "self_x ?s = self_x s"
    by simp
  have V: "self_V (left_by (update_potential p ?s)) = given_array p (self_x s)"
    unfolding update_potential_V x by (simp add: given_array_def)
  have "\<exists>s'. update_potential p ?s = Inr s'
         \<and> self_V s' = given_array p (self_x s)
         \<and> self_H s' = add_diag (self_T s) (given_array p (self_x s))
         \<and> self_T s' = self_T s \<and> self_psi s' = self_psi s
         \<and> self_time s' = self_time s \<and> self_history s' = self_history s
         \<and> store s' = store s"
    if sq: "square (self_N s) (self_T s)"
      and len: "length (given_array p (self_x s)) = nat (self_N s)"
  proof -
    from sq left have sq': "square (self_N ?s) (self_T ?s)"
      by simp
    from len left have len': "length (given_array p (self_x ?s)) = nat (self_N ?s)"
      by simp
    show ?thesis
      unfolding update_potential_returns [OF sq' len'] using left by simp
  qed
  with left V show ?thesis
    by blast
qed

theorem update_potential_frame_witness:
  "square (self_N demo_installed) (self_T demo_installed)
   \<and> length (given_array (Callable (\<lambda>x. barrier_potential x 50 1 4))
               (self_x demo_installed)) = nat (self_N demo_installed)
   \<and> (\<exists>s'. update_potential (Callable (\<lambda>x. barrier_potential x 50 1 4))
              (update_potentials [Array [3, 5], Array []] demo_installed) = Inr s'
         \<and> self_V s' = [0, 50]
         \<and> self_H s' = [[1 / 16, - (1 / 32)], [- (1 / 32), 1 / 16 + 50]]
         \<and> self_T s' = self_T demo_installed \<and> self_psi s' = Some 0
         \<and> self_time s' = 0 \<and> self_history s' = [1]
         \<and> store s' = store demo_installed)"
proof -
  let ?p = "Callable (\<lambda>x. barrier_potential x 50 1 4)"
  have v: "given_array ?p (self_x demo_installed) = [0, 50]"
    by (simp add: given_array_def barrier_potential_def demo_installed_def demo_sim_def)
  have h1: "square (self_N demo_installed) (self_T demo_installed)"
    by (simp add: square_def demo_installed_def demo_sim_def numeral_2_eq_2)
  have h2: "length (given_array ?p (self_x demo_installed)) = nat (self_N demo_installed)"
    unfolding v by (simp add: demo_installed_def demo_sim_def)
  have h: "add_diag (self_T demo_installed) [0, 50]
      = [[1 / 16, - (1 / 32)], [- (1 / 32), 1 / 16 + 50]]"
    by (simp add: add_diag_def demo_installed_def demo_sim_def upt_conv_Cons)
  have f: "self_psi demo_installed = Some 0" "self_time demo_installed = 0"
    "self_history demo_installed = [1]"
    by (simp_all add: demo_installed_def)
  from update_potential_frame [of "[Array [3, 5], Array []]" demo_installed ?p] h1 h2
  have "\<exists>s'. update_potential ?p
              (update_potentials [Array [3, 5], Array []] demo_installed) = Inr s'
         \<and> self_V s' = [0, 50]
         \<and> self_H s' = [[1 / 16, - (1 / 32)], [- (1 / 32), 1 / 16 + 50]]
         \<and> self_T s' = self_T demo_installed \<and> self_psi s' = Some 0
         \<and> self_time s' = 0 \<and> self_history s' = [1]
         \<and> store s' = store demo_installed"
    unfolding v h f by blast
  with h1 h2 show ?thesis
    by blast
qed

text \<open>The claim as stated fails for a potential of another length. On the installed
  simulator of two grid points, \<^verbatim>\<open>update_potential(np.array([]))\<close> raises and leaves the
  Hamiltonian of before beside the new \<^verbatim>\<open>self.V\<close>; and
  \<^verbatim>\<open>update_potential(np.array([3., 5., 7.]))\<close> returns with the three entries in
  \<^verbatim>\<open>self.V\<close> and a Hamiltonian built from the first two.\<close>

theorem update_potential_frame_counterexample:
  "update_potential (Array []) demo_installed
     = Inl (ValueError ''Diagonal length does not agree with matrix size'',
            demo_installed\<lparr>self_V := []\<rparr>)
   \<and> self_H (demo_installed\<lparr>self_V := []\<rparr>) = self_H demo_installed
   \<and> self_H demo_installed = add_diag (self_T demo_installed) [0, 0]
   \<and> update_potential (Array [3, 5, 7]) demo_installed
     = Inr (demo_installed\<lparr>self_V := [3, 5, 7],
              self_H := [[1 / 16 + 3, - (1 / 32)], [- (1 / 32), 1 / 16 + 5]],
              self_U_matrix := None\<rparr>)"
proof -
  have 1: "update_potential (Array []) demo_installed
     = Inl (ValueError ''Diagonal length does not agree with matrix size'',
            demo_installed\<lparr>self_V := []\<rparr>)"
    by (simp add: update_potential_def diags_def fit_diagonal_def demo_installed_def
        demo_sim_def Let_def)
  have 2: "self_H (demo_installed\<lparr>self_V := []\<rparr>) = self_H demo_installed"
    by simp
  have 3: "self_H demo_installed = add_diag (self_T demo_installed) [0, 0]"
    by (simp add: add_diag_def demo_installed_def demo_sim_def upt_conv_Cons)
  have 4: "update_potential (Array [3, 5, 7]) demo_installed
     = Inr (demo_installed\<lparr>self_V := [3, 5, 7],
              self_H := [[1 / 16 + 3, - (1 / 32)], [- (1 / 32), 1 / 16 + 5]],
              self_U_matrix := None\<rparr>)"
    by (simp add: update_potential_def diags_def fit_diagonal_def diag_entry_def
        mat_add_def demo_installed_def demo_sim_def Let_def numeral_2_eq_2 upt_conv_Cons)
  from 1 2 3 4 show ?thesis
    by blast
qed

section \<open>Construction\<close>

lemma kinetic_diagonals_ok:
  assumes "2 \<le> N"
  shows "kinetic_diagonals N
     = Inr [replicate (nat N - 1) 1, replicate (nat N) (- 2), replicate (nat N - 1) 1]"
  using assms by (simp add: kinetic_diagonals_def np_ones_def nat_diff_distrib map_replicate_const)

lemma diags_kinetic:
  assumes "2 \<le> N"
  shows "diags [replicate (nat N - 1) 1, replicate (nat N) (- 2), replicate (nat N - 1) 1]
           [- 1, 0, 1] N = Inr (tridiagonal (nat N) (- 1))"
proof -
  from assms have f: "fit_all (nat N) (zip [- 1, 0, 1]
       [replicate (nat N - 1) 1, replicate (nat N) (- 2), replicate (nat N - 1) 1])
     = Inr [(- 1, replicate (nat N - 1) 1), (0, replicate (nat N) (- 2)),
            (1, replicate (nat N - 1) 1)]"
    by (simp add: fit_diagonal_def)
  have "map (\<lambda>i. map (\<lambda>j. sum_list (map (diag_entry i j)
            [(- 1, replicate (nat N - 1) 1), (0, replicate (nat N) (- 2)),
             (1, replicate (nat N - 1) 1)])) [0..<nat N]) [0..<nat N]
      = tridiagonal (nat N) (- 1)"
    unfolding tridiagonal_def
    by (intro nth_equalityI) (auto simp: diag_entry_def)
  with f assms show ?thesis
    by (simp add: diags_def)
qed

lemma mat_scale_tridiagonal: "mat_scale c (tridiagonal n k) = tridiagonal n (c * k)"
  by (simp add: mat_scale_def tridiagonal_def o_def)

lemma square_tridiagonal: "0 \<le> N \<Longrightarrow> square N (tridiagonal (nat N) k)"
  by (simp add: square_def tridiagonal_def o_def map_replicate_const)

lemma np_linspace_grid: "0 \<le> N \<Longrightarrow> N \<noteq> 1 \<Longrightarrow> np_linspace 0 L N = Inr (grid L N)"
  by (simp add: np_linspace_def grid_def)


lemma init_start:
  assumes "2 \<le> N"
  shows "py_div L (real_of_int (N - 1)) = Inr (L / real_of_int (N - 1))"
    and "np_linspace 0 L N = Inr (grid L N)"
  using assms by (simp_all add: py_div_def np_linspace_grid)

lemma init_body:
  assumes N: "2 \<le> N" and m: "m \<noteq> 0" and L: "L \<noteq> 0"
    and V: "initial_potential pot (grid L N) N = Inr V"
  shows "init L N m hbar dt pot =
     (case diags [V] [0] N of
        Inl e \<Rightarrow> Inl e
      | Inr DV \<Rightarrow>
          (case mat_add (tridiagonal (nat N)
                   (hbar\<^sup>2 / (2 * m * (L / real_of_int (N - 1))\<^sup>2))) DV of
             Inl e \<Rightarrow> Inl e
           | Inr H \<Rightarrow>
               Inr \<lparr>self_L = L, self_N = N, self_m = m, self_hbar = hbar, self_dt = dt,
                    self_dx = L / real_of_int (N - 1), self_x = grid L N, self_V = V,
                    self_T = tridiagonal (nat N)
                               (hbar\<^sup>2 / (2 * m * (L / real_of_int (N - 1))\<^sup>2)),
                    self_H = H, self_U_matrix = None, self_psi = None, self_time = 0,
                    self_history = [], store = []\<rparr>))"
proof -
  let ?dx = "L / real_of_int (N - 1)"
  let ?k = "hbar\<^sup>2 / (2 * m * ?dx\<^sup>2)"
  from N L have "?dx \<noteq> 0"
    by simp
  with m have k: "py_div (- (hbar\<^sup>2)) (2 * m * ?dx\<^sup>2) = Inr (- ?k)"
    by (simp add: py_div_def)
  have T: "mat_scale (- ?k) (tridiagonal (nat N) (- 1)) = tridiagonal (nat N) ?k"
    by (simp add: mat_scale_tridiagonal)
  show ?thesis
    by (simp only: init_def init_start [OF N] V k kinetic_diagonals_ok [OF N]
        diags_kinetic [OF N] T sum.case Let_def)
qed

lemma init_zero_division:
  assumes N: "2 \<le> N" and z: "m = 0 \<or> L = 0"
    and V: "initial_potential pot (grid L N) N = Inr V"
  shows "init L N m hbar dt pot = Inl ZeroDivisionError"
proof -
  from z have k: "py_div (- (hbar\<^sup>2)) (2 * m * (L / real_of_int (N - 1))\<^sup>2)
      = Inl ZeroDivisionError"
    by (auto simp: py_div_def)
  show ?thesis
    by (simp only: init_def init_start [OF N] V k sum.case)
qed

lemma init_potential_raises:
  assumes N: "2 \<le> N" and V: "initial_potential pot (grid L N) N = Inl e"
  shows "init L N m hbar dt pot = Inl e"
  by (simp only: init_def init_start [OF N] V sum.case)

lemma init_small:
  assumes "N < 2"
  shows "\<exists>e. init L N m hbar dt pot = Inl e"
proof -
  consider "N = 1" | "N < 0" | "N = 0"
    using assms by linarith
  then show ?thesis
  proof cases
    case 1
    then show ?thesis
      by (simp add: init_def py_div_def)
  next
    case 2
    then show ?thesis
      by (simp add: init_def py_div_def np_linspace_def)
  next
    case 3
    then show ?thesis
      by (simp add: init_def py_div_def np_linspace_grid kinetic_diagonals_def np_ones_def
          split: sum.splits)
  qed
qed

lemma init_returns:
  assumes N: "2 \<le> N" and m: "m \<noteq> 0" and L: "L \<noteq> 0"
    and V: "initial_potential pot (grid L N) N = Inr V" and len: "length V = nat N"
  shows "init L N m hbar dt pot =
     Inr \<lparr>self_L = L, self_N = N, self_m = m, self_hbar = hbar, self_dt = dt,
          self_dx = L / real_of_int (N - 1), self_x = grid L N, self_V = V,
          self_T = tridiagonal (nat N) (hbar\<^sup>2 / (2 * m * (L / real_of_int (N - 1))\<^sup>2)),
          self_H = add_diag (tridiagonal (nat N)
                     (hbar\<^sup>2 / (2 * m * (L / real_of_int (N - 1))\<^sup>2))) V,
          self_U_matrix = None, self_psi = None, self_time = 0,
          self_history = [], store = []\<rparr>"
proof -
  let ?T = "tridiagonal (nat N) (hbar\<^sup>2 / (2 * m * (L / real_of_int (N - 1))\<^sup>2))"
  from N have "square N ?T"
    by (intro square_tridiagonal) simp
  from rebuild [OF this len] obtain D
    where "diags [V] [0] N = Inr D" and "mat_add ?T D = Inr (add_diag ?T V)"
    by blast
  then show ?thesis
    by (simp only: init_body [OF N m L V] sum.case)
qed

lemma init_Inr:
  assumes "init L N m hbar dt pot = Inr s"
  shows "2 \<le> N \<and> m \<noteq> 0 \<and> L \<noteq> 0
     \<and> initial_potential pot (grid L N) N = Inr (self_V s)
     \<and> self_dx s = L / real_of_int (N - 1) \<and> self_x s = grid L N
     \<and> self_T s = tridiagonal (nat N) (hbar\<^sup>2 / (2 * m * (L / real_of_int (N - 1))\<^sup>2))
     \<and> self_N s = N
     \<and> (\<exists>D. diags [self_V s] [0] N = Inr D \<and> mat_add (self_T s) D = Inr (self_H s))"
proof -
  have N: "2 \<le> N"
  proof (rule ccontr)
    assume "\<not> 2 \<le> N"
    then have "N < 2"
      by simp
    from init_small [OF this, of L m hbar dt pot] assms show False
      by auto
  qed
  obtain V where V: "initial_potential pot (grid L N) N = Inr V"
    using init_potential_raises [OF N, of pot L _ m hbar dt] assms
    by (cases "initial_potential pot (grid L N) N") auto
  have mL: "m \<noteq> 0 \<and> L \<noteq> 0"
    using init_zero_division [OF N _ V, of m hbar dt] assms by auto
  then have m: "m \<noteq> 0" and L: "L \<noteq> 0"
    by simp_all
  from assms show ?thesis
    unfolding init_body [OF N m L V] using N m L V
    by (auto split: sum.splits)
qed

lemma grid_nth: "i < nat N \<Longrightarrow> grid L N ! i = real i * (L / real_of_int (N - 1))"
  by (simp add: grid_def)

lemma tridiagonal_nth:
  "i < n \<Longrightarrow> j < n \<Longrightarrow>
     tridiagonal n k ! i ! j
       = (if i = j then 2 * k else if i = Suc j \<or> j = Suc i then - k else 0)"
  by (simp add: tridiagonal_def)

text \<open>
  C6. With at least two grid points, \<open>L \<noteq> 0\<close>, \<open>m \<noteq> 0\<close> and a potential that is absent
  or a function whose value on the grid has length \<open>N\<close>, \<^verbatim>\<open>__init__\<close> returns, and the
  simulator it returns has the spacing \<open>dx = L / (N - 1)\<close>, the grid of the
  specification and, as kinetic operator, the tridiagonal matrix of the specification
  for \<open>k = hbar\<^sup>2 / (2 m dx\<^sup>2)\<close>. Every simulator that \<^verbatim>\<open>__init__\<close> returns has at least
  two grid points and these three. The grid has the \<open>N\<close> points \<open>i \<cdot> L / (N - 1)\<close>, from 0
  to \<open>L\<close>; the matrix is \<open>N \<times> N\<close> with \<open>2k\<close> on the main diagonal, \<open>- k\<close> on the two
  diagonals beside it and zero elsewhere.
\<close>

theorem grid_and_kinetic_operator:
  "(2 \<le> N \<and> L \<noteq> 0 \<and> m \<noteq> 0
      \<and> (pot = None \<or> (\<exists>f. pot = Some (Callable f) \<and> length (f (grid L N)) = nat N)) \<longrightarrow>
      (\<exists>s. init L N m hbar dt pot = Inr s
         \<and> self_dx s = L / real_of_int (N - 1)
         \<and> self_x s = grid L N
         \<and> self_T s = tridiagonal (nat N) (hbar\<^sup>2 / (2 * m * (self_dx s)\<^sup>2))))
   \<and> (\<forall>s. init L N m hbar dt pot = Inr s \<longrightarrow>
         2 \<le> N
         \<and> self_dx s = L / real_of_int (N - 1)
         \<and> self_x s = grid L N
         \<and> self_T s = tridiagonal (nat N) (hbar\<^sup>2 / (2 * m * (self_dx s)\<^sup>2)))
   \<and> length (grid L N) = nat N
   \<and> (\<forall>i. i < nat N \<longrightarrow> grid L N ! i = real i * (L / real_of_int (N - 1)))
   \<and> (2 \<le> N \<longrightarrow> grid L N ! 0 = 0 \<and> grid L N ! (nat N - 1) = L)
   \<and> length (tridiagonal n k) = n
   \<and> (\<forall>i j. i < n \<and> j < n \<longrightarrow>
         length (tridiagonal n k ! i) = n
         \<and> tridiagonal n k ! i ! j
             = (if i = j then 2 * k else if i = Suc j \<or> j = Suc i then - k else 0))"
proof (intro conjI allI impI)
  assume a: "2 \<le> N \<and> L \<noteq> 0 \<and> m \<noteq> 0
      \<and> (pot = None \<or> (\<exists>f. pot = Some (Callable f) \<and> length (f (grid L N)) = nat N))"
  then have N: "2 \<le> N" and L: "L \<noteq> 0" and m: "m \<noteq> 0"
    by simp_all
  from a obtain V where V: "initial_potential pot (grid L N) N = Inr V"
    and len: "length V = nat N"
    by (auto simp: initial_potential_def np_zeros_def)
  show "\<exists>s. init L N m hbar dt pot = Inr s
         \<and> self_dx s = L / real_of_int (N - 1)
         \<and> self_x s = grid L N
         \<and> self_T s = tridiagonal (nat N) (hbar\<^sup>2 / (2 * m * (self_dx s)\<^sup>2))"
    unfolding init_returns [OF N m L V len] by simp
next
  fix s
  assume "init L N m hbar dt pot = Inr s"
  note f = init_Inr [OF this]
  from f show "2 \<le> N"
    by simp
  from f show "self_dx s = L / real_of_int (N - 1)"
    by simp
  from f show "self_x s = grid L N"
    by simp
  from f show "self_T s = tridiagonal (nat N) (hbar\<^sup>2 / (2 * m * (self_dx s)\<^sup>2))"
    by simp
next
  show "length (grid L N) = nat N"
    by (simp add: grid_def)
next
  fix i
  assume "i < nat N"
  then show "grid L N ! i = real i * (L / real_of_int (N - 1))"
    by (rule grid_nth)
next
  assume N: "2 \<le> N"
  then show "grid L N ! 0 = 0"
    by (simp add: grid_nth)
  have "real (nat N - 1) = real_of_int (N - 1)"
    using N by (simp add: of_nat_diff)
  moreover have "real_of_int (N - 1) \<noteq> 0"
    using N by simp
  ultimately show "grid L N ! (nat N - 1) = L"
    using N by (simp add: grid_nth)
next
  show "length (tridiagonal n k) = n"
    by (simp add: tridiagonal_def)
next
  fix i j
  assume ij: "i < n \<and> j < n"
  then show "length (tridiagonal n k ! i) = n"
    by (simp add: tridiagonal_def)
  from ij show "tridiagonal n k ! i ! j
             = (if i = j then 2 * k else if i = Suc j \<or> j = Suc i then - k else 0)"
    by (simp add: tridiagonal_nth)
qed

theorem grid_and_kinetic_operator_witness:
  "(2 :: int) \<le> 500 \<and> (1 :: real) \<noteq> 0
   \<and> (\<exists>s. init 1 500 1 1 (1 / 1000) None = Inr s
          \<and> self_dx s = 1 / 499
          \<and> length (self_x s) = 500
          \<and> self_x s ! 0 = 0 \<and> self_x s ! 1 = 1 / 499 \<and> self_x s ! 250 = 250 / 499
          \<and> self_x s ! 499 = 1
          \<and> length (self_T s) = 500 \<and> length (self_T s ! 7) = 500
          \<and> self_T s ! 7 ! 7 = 249001
          \<and> self_T s ! 7 ! 8 = - (249001 / 2) \<and> self_T s ! 8 ! 7 = - (249001 / 2)
          \<and> self_T s ! 7 ! 9 = 0 \<and> self_T s ! 499 ! 0 = 0)
   \<and> init 4 2 1 1 (1 / 1000) None = Inr demo_sim
   \<and> self_dx demo_sim = 4 \<and> self_x demo_sim = grid 4 2
   \<and> self_T demo_sim = tridiagonal 2 (1 / 32)"
proof -
  note t = grid_and_kinetic_operator [where N = 500 and L = 1 and m = 1 and hbar = 1
      and dt = "1 / 1000" and pot = None and n = 500 and k = "249001 / 2"]
  from t obtain s where s: "init 1 500 1 1 (1 / 1000) None = Inr s"
    and dx: "self_dx s = 1 / real_of_int (500 - 1)"
    and x: "self_x s = grid 1 500"
    and T: "self_T s = tridiagonal (nat 500) (1\<^sup>2 / (2 * 1 * (self_dx s)\<^sup>2))"
    by auto
  have dx': "self_dx s = 1 / 499"
    using dx by simp
  have T': "self_T s = tridiagonal 500 (249001 / 2)"
    unfolding T dx' by (simp add: power_divide)
  from t have g: "\<And>i. i < 500 \<Longrightarrow> grid 1 500 ! i = real i * (1 / 499)"
    and gl: "length (grid 1 500) = 500"
    and ge: "grid 1 500 ! 0 = 0" "grid 1 500 ! 499 = 1"
    by simp_all
  from t have tl: "length (tridiagonal 500 (249001 / 2)) = 500"
    and te: "\<And>i j. i < 500 \<and> j < 500 \<Longrightarrow>
         length (tridiagonal 500 (249001 / 2 :: real) ! i) = 500
         \<and> tridiagonal 500 (249001 / 2) ! i ! j
             = (if i = j then 2 * (249001 / 2)
                else if i = Suc j \<or> j = Suc i then - (249001 / 2) else 0)"
    by blast+
  have 1: "\<exists>s. init 1 500 1 1 (1 / 1000) None = Inr s
          \<and> self_dx s = 1 / 499
          \<and> length (self_x s) = 500
          \<and> self_x s ! 0 = 0 \<and> self_x s ! 1 = 1 / 499 \<and> self_x s ! 250 = 250 / 499
          \<and> self_x s ! 499 = 1
          \<and> length (self_T s) = 500 \<and> length (self_T s ! 7) = 500
          \<and> self_T s ! 7 ! 7 = 249001
          \<and> self_T s ! 7 ! 8 = - (249001 / 2) \<and> self_T s ! 8 ! 7 = - (249001 / 2)
          \<and> self_T s ! 7 ! 9 = 0 \<and> self_T s ! 499 ! 0 = 0"
    using s dx' gl ge g [of 1] g [of 250] tl te [of 7 7] te [of 7 8] te [of 8 7]
      te [of 7 9] te [of 499 0] x T'
    by (intro exI [of _ s]) simp
  from grid_and_kinetic_operator [where N = 2 and L = 4 and m = 1 and hbar = 1
      and dt = "1 / 1000" and pot = None] demo_init
  have 2: "self_dx demo_sim = 4 \<and> self_x demo_sim = grid 4 2
      \<and> self_T demo_sim = tridiagonal 2 (1 / 32)"
    by (simp add: demo_sim_def)
  from 1 2 demo_init show ?thesis
    by simp
qed

lemma init_no_grid:
  assumes "N = 0" and "\<forall>a. pot \<noteq> Some (Array a)"
  shows "init L N m hbar dt pot
     = Inl (if L = 0 \<or> m = 0 then ZeroDivisionError
            else ValueError ''negative dimensions are not allowed'')"
proof -
  from assms(2) obtain V where V: "initial_potential pot (grid L 0) 0 = Inr V"
    by (cases pot; cases "the pot")
      (auto simp: initial_potential_def np_zeros_def split: potential.splits)
  have g: "np_linspace 0 L 0 = Inr (grid L 0)"
    by (simp add: np_linspace_grid)
  have d: "py_div L (real_of_int (0 - 1)) = Inr (- L)"
    by (simp add: py_div_def)
  have k: "py_div (- (hbar\<^sup>2)) (2 * m * (- L)\<^sup>2)
      = (if L = 0 \<or> m = 0 then Inl ZeroDivisionError
         else Inr (- (hbar\<^sup>2) / (2 * m * (- L)\<^sup>2)))"
    by (auto simp: py_div_def)
  have o: "kinetic_diagonals 0 = Inl (ValueError ''negative dimensions are not allowed'')"
    by (simp add: kinetic_diagonals_def np_ones_def)
  show ?thesis
    by (simp only: assms(1) init_def d g V k o sum.case) auto
qed

text \<open>
  C5, as the code has it. \<^verbatim>\<open>__init__\<close> checks nothing. With fewer than two grid points
  it does raise, out of the arithmetic: \<^verbatim>\<open>ZeroDivisionError\<close> from \<open>L / (N - 1)\<close> for
  \<open>N = 1\<close>; the \<^verbatim>\<open>ValueError\<close> of \<^verbatim>\<open>np.linspace\<close> for \<open>N < 0\<close>; and for \<open>N = 0\<close>, with no
  potential or a function for one, \<^verbatim>\<open>ZeroDivisionError\<close> from the kinetic coefficient
  when \<open>L = 0\<close> or \<open>m = 0\<close> and the \<^verbatim>\<open>ValueError\<close> of \<^verbatim>\<open>np.ones(-1)\<close> otherwise, with an
  array for the potential \<^verbatim>\<open>TypeError\<close>. With two grid points or more, and no
  potential or a function for one, it raises \<^verbatim>\<open>ZeroDivisionError\<close> from the kinetic
  coefficient when \<open>L = 0\<close> or \<open>m = 0\<close>. With two grid points or more, \<open>L \<noteq> 0\<close>, \<open>m \<noteq> 0\<close>
  and no potential it returns a simulator with the values given, whatever their signs
  and whatever \<open>hbar\<close> and \<open>dt\<close> are.
\<close>

theorem no_configuration_check:
  "(N = 1 \<longrightarrow> init L N m hbar dt pot = Inl ZeroDivisionError)
   \<and> (N < 0 \<longrightarrow>
        init L N m hbar dt pot = Inl (ValueError ''Number of samples must be non-negative''))
   \<and> (N = 0 \<and> (\<forall>a. pot \<noteq> Some (Array a)) \<longrightarrow>
        init L N m hbar dt pot
          = Inl (if L = 0 \<or> m = 0 then ZeroDivisionError
                 else ValueError ''negative dimensions are not allowed''))
   \<and> (N = 0 \<longrightarrow> init L N m hbar dt (Some (Array a)) = Inl TypeError)
   \<and> (2 \<le> N \<and> (L = 0 \<or> m = 0) \<and> (\<forall>a. pot \<noteq> Some (Array a)) \<longrightarrow>
        init L N m hbar dt pot = Inl ZeroDivisionError)
   \<and> (2 \<le> N \<and> L \<noteq> 0 \<and> m \<noteq> 0 \<longrightarrow>
        (\<exists>s. init L N m hbar dt None = Inr s
           \<and> self_L s = L \<and> self_N s = N \<and> self_m s = m \<and> self_hbar s = hbar
           \<and> self_dt s = dt))"
proof (intro conjI impI)
  assume "N = 1"
  then show "init L N m hbar dt pot = Inl ZeroDivisionError"
    by (simp add: init_def py_div_def)
next
  assume "N < 0"
  then show "init L N m hbar dt pot
      = Inl (ValueError ''Number of samples must be non-negative'')"
    by (simp add: init_def py_div_def np_linspace_def)
next
  assume "N = 0 \<and> (\<forall>a. pot \<noteq> Some (Array a))"
  then show "init L N m hbar dt pot
          = Inl (if L = 0 \<or> m = 0 then ZeroDivisionError
                 else ValueError ''negative dimensions are not allowed'')"
    by (intro init_no_grid) simp_all
next
  assume "N = 0"
  then show "init L N m hbar dt (Some (Array a)) = Inl TypeError"
    by (simp add: init_def py_div_def np_linspace_def initial_potential_def)
next
  assume a: "2 \<le> N \<and> (L = 0 \<or> m = 0) \<and> (\<forall>a. pot \<noteq> Some (Array a))"
  then obtain V where V: "initial_potential pot (grid L N) N = Inr V"
    by (cases pot; cases "the pot")
      (auto simp: initial_potential_def np_zeros_def split: potential.splits)
  from a have "m = 0 \<or> L = 0" and "2 \<le> N"
    by auto
  then show "init L N m hbar dt pot = Inl ZeroDivisionError"
    by (intro init_zero_division [OF _ _ V])
next
  assume a: "2 \<le> N \<and> L \<noteq> 0 \<and> m \<noteq> 0"
  then have V: "initial_potential None (grid L N) N = Inr (replicate (nat N) 0)"
    by (simp add: initial_potential_def np_zeros_def)
  from a have N: "2 \<le> N" and L: "L \<noteq> 0" and m: "m \<noteq> 0"
    by simp_all
  show "\<exists>s. init L N m hbar dt None = Inr s
           \<and> self_L s = L \<and> self_N s = N \<and> self_m s = m \<and> self_hbar s = hbar
           \<and> self_dt s = dt"
    unfolding init_returns [OF N m L V, simplified] by simp
qed

theorem no_configuration_check_witness:
  "(2 :: int) \<le> 2 \<and> (- 4 :: real) \<noteq> 0 \<and> (- 1 :: real) \<noteq> 0
   \<and> (\<exists>s. init (- 4) 2 (- 1) 0 (- 1) None = Inr s
          \<and> self_L s = - 4 \<and> self_N s = 2 \<and> self_m s = - 1 \<and> self_hbar s = 0
          \<and> self_dt s = - 1)
   \<and> init 4 1 1 1 (1 / 1000) None = Inl ZeroDivisionError
   \<and> init 4 (- 3) 1 1 (1 / 1000) None
       = Inl (ValueError ''Number of samples must be non-negative'')
   \<and> init 4 0 1 1 (1 / 1000) None
       = Inl (ValueError ''negative dimensions are not allowed'')
   \<and> init 0 0 1 1 (1 / 1000) (Some (Callable infinite_well)) = Inl ZeroDivisionError
   \<and> init 4 0 1 1 (1 / 1000) (Some (Array [])) = Inl TypeError
   \<and> init 0 2 1 1 (1 / 1000) None = Inl ZeroDivisionError
   \<and> init 4 2 0 1 (1 / 1000) (Some (Callable infinite_well)) = Inl ZeroDivisionError"
proof -
  have 1: "\<exists>s. init (- 4) 2 (- 1) 0 (- 1) None = Inr s
          \<and> self_L s = - 4 \<and> self_N s = 2 \<and> self_m s = - 1 \<and> self_hbar s = 0
          \<and> self_dt s = - 1"
    using no_configuration_check [of 2 "- 4" "- 1" 0 "- 1" None] by simp
  have 2: "init 4 1 1 1 (1 / 1000) None = Inl ZeroDivisionError"
    using no_configuration_check [of 1 4 1 1 "1 / 1000" None] by simp
  have 3: "init 4 (- 3) 1 1 (1 / 1000) None
       = Inl (ValueError ''Number of samples must be non-negative'')"
    using no_configuration_check [of "- 3" 4 1 1 "1 / 1000" None] by simp
  have 4: "init 4 0 1 1 (1 / 1000) None
       = Inl (ValueError ''negative dimensions are not allowed'')"
    using no_configuration_check [of 0 4 1 1 "1 / 1000" None] by simp
  have 5: "init 0 0 1 1 (1 / 1000) (Some (Callable infinite_well)) = Inl ZeroDivisionError"
    using no_configuration_check [of 0 0 1 1 "1 / 1000" "Some (Callable infinite_well)"]
    by simp
  have 6: "init 4 0 1 1 (1 / 1000) (Some (Array [])) = Inl TypeError"
    using no_configuration_check [of 0 4 1 1 "1 / 1000" None "[]"] by simp
  have 7: "init 0 2 1 1 (1 / 1000) None = Inl ZeroDivisionError"
    using no_configuration_check [of 2 0 1 1 "1 / 1000" None] by simp
  have 8: "init 4 2 0 1 (1 / 1000) (Some (Callable infinite_well)) = Inl ZeroDivisionError"
    using no_configuration_check [of 2 4 0 1 "1 / 1000" "Some (Callable infinite_well)"]
    by simp
  from 1 2 3 4 5 6 7 8 show ?thesis
    by simp
qed

text \<open>The claim as stated fails: \<^verbatim>\<open>QuantumSimulator(L=-4.0, N=2, m=-1.0, hbar=-1.0,
  dt=0.0)\<close>, with not one of the four positive, is constructed.\<close>

theorem no_configuration_check_counterexample:
  "init (- 4) 2 (- 1) (- 1) 0 None
     = Inr \<lparr>self_L = - 4, self_N = 2, self_m = - 1, self_hbar = - 1, self_dt = 0,
            self_dx = - 4, self_x = [0, - 4], self_V = [0, 0],
            self_T = [[- (1 / 16), 1 / 32], [1 / 32, - (1 / 16)]],
            self_H = [[- (1 / 16), 1 / 32], [1 / 32, - (1 / 16)]],
            self_U_matrix = None, self_psi = None, self_time = 0,
            self_history = [], store = []\<rparr>"
  by (simp add: init_def initial_potential_def py_div_def np_linspace_def np_zeros_def
      kinetic_diagonals_def np_ones_def diags_def fit_diagonal_def diag_entry_def
      mat_scale_def mat_add_def numeral_2_eq_2 upt_conv_Cons Let_def)

text \<open>
  C8, as the code has it. \<^verbatim>\<open>__init__\<close> calls its \<^verbatim>\<open>potential\<close> argument on the grid: the
  argument is a function, and an array in its place raises (\<^verbatim>\<open>TypeError\<close>, when the
  grid could be built). A simulator that \<^verbatim>\<open>__init__\<close> returns was given no potential and
  has the all-zero array of length \<open>N\<close> as \<^verbatim>\<open>self.V\<close>, or was given a function and has
  the function's value on the grid as \<^verbatim>\<open>self.V\<close>; its Hamiltonian is the sum of \<open>T\<close> and
  scipy's \<^verbatim>\<open>diags\<close> of \<^verbatim>\<open>self.V\<close>, which is \<open>T + diag V\<close> when \<^verbatim>\<open>self.V\<close> has length \<open>N\<close>.
  With \<open>N \<ge> 2\<close>, \<open>L \<noteq> 0\<close> and \<open>m \<noteq> 0\<close>, \<^verbatim>\<open>__init__\<close> returns when given no potential and
  when given a function whose value on the grid has length \<open>N\<close>.
\<close>

theorem construction_potential:
  "(init L N m hbar dt pot = Inr s \<longrightarrow>
      (pot = None \<and> self_V s = replicate (nat N) 0
         \<or> (\<exists>g. pot = Some (Callable g) \<and> self_V s = g (self_x s)))
      \<and> (\<exists>D. diags [self_V s] [0] N = Inr D \<and> mat_add (self_T s) D = Inr (self_H s))
      \<and> (length (self_V s) = nat N \<longrightarrow> self_H s = add_diag (self_T s) (self_V s)))
   \<and> (2 \<le> N \<and> L \<noteq> 0 \<and> m \<noteq> 0 \<and> length (f (grid L N)) = nat N \<longrightarrow>
        (\<exists>s'. init L N m hbar dt (Some (Callable f)) = Inr s'
           \<and> self_V s' = f (grid L N)
           \<and> self_H s' = add_diag (self_T s') (self_V s')))
   \<and> (2 \<le> N \<and> L \<noteq> 0 \<and> m \<noteq> 0 \<longrightarrow>
        (\<exists>s'. init L N m hbar dt None = Inr s'
           \<and> self_V s' = replicate (nat N) 0
           \<and> self_H s' = add_diag (self_T s') (self_V s')))
   \<and> (\<exists>e. init L N m hbar dt (Some (Array a)) = Inl e)
   \<and> (2 \<le> N \<longrightarrow> init L N m hbar dt (Some (Array a)) = Inl TypeError)"
proof (intro conjI impI)
  assume i: "init L N m hbar dt pot = Inr s"
  note f = init_Inr [OF i]
  from f have V: "initial_potential pot (grid L N) N = Inr (self_V s)"
    and x: "self_x s = grid L N" and N: "2 \<le> N"
    by simp_all
  from V N show "pot = None \<and> self_V s = replicate (nat N) 0
         \<or> (\<exists>g. pot = Some (Callable g) \<and> self_V s = g (self_x s))"
    unfolding x
    by (auto simp: initial_potential_def np_zeros_def split: option.splits potential.splits)
  from f show D: "\<exists>D. diags [self_V s] [0] N = Inr D \<and> mat_add (self_T s) D = Inr (self_H s)"
    by blast
  assume len: "length (self_V s) = nat N"
  from f N have "square N (self_T s)"
    by (simp add: square_tridiagonal)
  from rebuild [OF this len] D show "self_H s = add_diag (self_T s) (self_V s)"
    by auto
next
  assume a: "2 \<le> N \<and> L \<noteq> 0 \<and> m \<noteq> 0 \<and> length (f (grid L N)) = nat N"
  then have N: "2 \<le> N" and L: "L \<noteq> 0" and m: "m \<noteq> 0"
    and len: "length (f (grid L N)) = nat N"
    by simp_all
  have V: "initial_potential (Some (Callable f)) (grid L N) N = Inr (f (grid L N))"
    by (simp add: initial_potential_def)
  show "\<exists>s'. init L N m hbar dt (Some (Callable f)) = Inr s'
           \<and> self_V s' = f (grid L N)
           \<and> self_H s' = add_diag (self_T s') (self_V s')"
    unfolding init_returns [OF N m L V len] by simp
next
  assume a: "2 \<le> N \<and> L \<noteq> 0 \<and> m \<noteq> 0"
  then have N: "2 \<le> N" and L: "L \<noteq> 0" and m: "m \<noteq> 0"
    by simp_all
  from N have V: "initial_potential None (grid L N) N = Inr (replicate (nat N) 0)"
    by (simp add: initial_potential_def np_zeros_def)
  have len: "length (replicate (nat N) (0 :: real)) = nat N"
    by simp
  show "\<exists>s'. init L N m hbar dt None = Inr s'
           \<and> self_V s' = replicate (nat N) 0
           \<and> self_H s' = add_diag (self_T s') (self_V s')"
    unfolding init_returns [OF N m L V len] by simp
next
  have V: "initial_potential (Some (Array a)) (grid L N) N = Inl TypeError"
    by (simp add: initial_potential_def)
  show "\<exists>e. init L N m hbar dt (Some (Array a)) = Inl e"
  proof (cases "2 \<le> N")
    case True
    from init_potential_raises [OF True V] show ?thesis
      by blast
  next
    case False
    then have "N < 2"
      by simp
    then show ?thesis
      by (rule init_small)
  qed
  assume "2 \<le> N"
  from init_potential_raises [OF this V]
  show "init L N m hbar dt (Some (Array a)) = Inl TypeError" .
qed

theorem construction_potential_witness:
  "init 4 2 1 1 (1 / 1000) None = Inr demo_sim
   \<and> self_V demo_sim = replicate (nat 2) 0
   \<and> length (self_V demo_sim) = nat 2
   \<and> self_H demo_sim = add_diag (self_T demo_sim) (self_V demo_sim)
   \<and> (2 :: int) \<le> 2 \<and> (4 :: real) \<noteq> 0 \<and> (1 :: real) \<noteq> 0
   \<and> length (barrier_potential (grid 4 2) 50 1 4) = nat 2
   \<and> (\<exists>s'. init 4 2 1 1 (1 / 1000) (Some (Callable (\<lambda>x. barrier_potential x 50 1 4)))
              = Inr s'
          \<and> self_V s' = barrier_potential (grid 4 2) 50 1 4
          \<and> self_H s' = add_diag (self_T s') (self_V s'))
   \<and> init 4 2 1 1 (1 / 1000) (Some (Array [0, 50])) = Inl TypeError"
proof -
  note t = construction_potential [of 4 2 1 1 "1 / 1000" None demo_sim
      "\<lambda>x. barrier_potential x 50 1 4" "[0, 50]"]
  have len: "length (self_V demo_sim) = nat 2"
    by (simp add: demo_sim_def)
  have lb: "length (barrier_potential (grid 4 2) 50 1 4) = nat 2"
    by (simp add: barrier_potential_def grid_def)
  from t demo_init len have 1: "self_V demo_sim = replicate (nat 2) 0"
    and 2: "self_H demo_sim = add_diag (self_T demo_sim) (self_V demo_sim)"
    by simp_all
  from t lb have 3: "\<exists>s'. init 4 2 1 1 (1 / 1000)
                (Some (Callable (\<lambda>x. barrier_potential x 50 1 4))) = Inr s'
          \<and> self_V s' = barrier_potential (grid 4 2) 50 1 4
          \<and> self_H s' = add_diag (self_T s') (self_V s')"
    by simp
  from t have 4: "init 4 2 1 1 (1 / 1000) (Some (Array [0, 50])) = Inl TypeError"
    by simp
  from demo_init len lb 1 2 3 4 show ?thesis
    by simp
qed

text \<open>The claim as stated fails: given the potential as an array of length \<open>N\<close>,
  \<^verbatim>\<open>QuantumSimulator(L=4.0, N=2, potential=np.array([0.0, 50.0]))\<close> raises.\<close>

theorem construction_potential_counterexample:
  "length [0, 50 :: real] = nat 2
   \<and> init 4 2 1 1 (1 / 1000) (Some (Array [0, 50])) = Inl TypeError"
  by (simp add: init_def initial_potential_def py_div_def np_linspace_def)

section \<open>The barrier of the tunnelling demonstration\<close>

lemma grid_500: "i < 500 \<Longrightarrow> grid 1 500 ! i = real i / 499"
  by (simp add: grid_def)

lemma barrier_nth:
  "i < length x \<Longrightarrow>
     barrier_potential x h w c ! i = (if c - w / 2 < x ! i \<and> x ! i < c + w / 2 then h else 0)"
  by (simp add: barrier_potential_def)

lemma window_500:
  fixes i :: nat
  shows "(475 / 1000 < real i / 499 \<and> real i / 499 < 525 / 1000) \<longleftrightarrow> (238 \<le> i \<and> i \<le> 261)"
proof -
  have "475 / 1000 < real i / 499 \<longleftrightarrow> 238 \<le> i"
    by (simp add: field_simps) linarith
  moreover have "real i / 499 < 525 / 1000 \<longleftrightarrow> i \<le> 261"
    by (simp add: field_simps) linarith
  ultimately show ?thesis
    by simp
qed

lemma margin_500:
  fixes i :: nat
  shows "1 / 20000 \<le> \<bar>real i / 499 - 475 / 1000\<bar>"
    and "1 / 20000 \<le> \<bar>real i / 499 - 525 / 1000\<bar>"
proof -
  consider "i \<le> 237" | "238 \<le> i"
    by linarith
  then show "1 / 20000 \<le> \<bar>real i / 499 - 475 / 1000\<bar>"
  proof cases
    case 1
    then have "real i \<le> 237"
      by simp
    then show ?thesis
      by linarith
  next
    case 2
    then have "238 \<le> real i"
      by simp
    then show ?thesis
      by linarith
  qed
  consider "i \<le> 261" | "262 \<le> i"
    by linarith
  then show "1 / 20000 \<le> \<bar>real i / 499 - 525 / 1000\<bar>"
  proof cases
    case 1
    then have "real i \<le> 261"
      by simp
    then show ?thesis
      by linarith
  next
    case 2
    then have "262 \<le> real i"
      by simp
    then show ?thesis
      by linarith
  qed
qed

text \<open>
  C9. \<^verbatim>\<open>np.linspace(0, 1, 500)\<close> is the grid of the points \<open>i / 499\<close>, and
  \<^verbatim>\<open>barrier_potential(x, barrier_height=50.0, barrier_width=0.05)\<close>, with the centre
  0.5 of the default, is on it the array of length 500 whose entry is 50 at every grid
  point strictly between 0.475 and 0.525, and 0 at every other: 50 at the indices 238
  to 261, 0 elsewhere. No grid point is closer than \<open>1 / 20000\<close> to an edge of the
  window, so the rounding of the floats, which the model leaves out, decides no
  comparison.
\<close>

theorem barrier_scenario:
  "np_linspace 0 1 500 = Inr (grid 1 500)
   \<and> length (grid 1 500) = 500
   \<and> length (barrier_potential (grid 1 500) 50 (5 / 100) (1 / 2)) = 500
   \<and> (\<forall>i. i < 500 \<longrightarrow>
        barrier_potential (grid 1 500) 50 (5 / 100) (1 / 2) ! i
          = (if 475 / 1000 < grid 1 500 ! i \<and> grid 1 500 ! i < 525 / 1000 then 50 else 0)
        \<and> barrier_potential (grid 1 500) 50 (5 / 100) (1 / 2) ! i
          = (if 238 \<le> i \<and> i \<le> 261 then 50 else 0)
        \<and> 1 / 20000 \<le> \<bar>grid 1 500 ! i - 475 / 1000\<bar>
        \<and> 1 / 20000 \<le> \<bar>grid 1 500 ! i - 525 / 1000\<bar>)"
proof (intro conjI allI impI)
  show "np_linspace 0 1 500 = Inr (grid 1 500)"
    by (simp add: np_linspace_grid)
  show l: "length (grid 1 500) = 500"
    by (simp add: grid_def)
  show "length (barrier_potential (grid 1 500) 50 (5 / 100) (1 / 2)) = 500"
    by (simp add: barrier_potential_def grid_def)
  fix i :: nat
  assume i: "i < 500"
  have e: "(1 / 2 - 5 / 100 / 2 :: real) = 475 / 1000" "(1 / 2 + 5 / 100 / 2 :: real) = 525 / 1000"
    by simp_all
  from i l have b: "barrier_potential (grid 1 500) 50 (5 / 100) (1 / 2) ! i
      = (if 475 / 1000 < grid 1 500 ! i \<and> grid 1 500 ! i < 525 / 1000 then 50 else 0)"
    unfolding barrier_nth [of i "grid 1 500", unfolded l, OF i] e by simp
  then show "barrier_potential (grid 1 500) 50 (5 / 100) (1 / 2) ! i
      = (if 475 / 1000 < grid 1 500 ! i \<and> grid 1 500 ! i < 525 / 1000 then 50 else 0)" .
  from b show "barrier_potential (grid 1 500) 50 (5 / 100) (1 / 2) ! i
      = (if 238 \<le> i \<and> i \<le> 261 then 50 else 0)"
    unfolding grid_500 [OF i] window_500 .
  show "1 / 20000 \<le> \<bar>grid 1 500 ! i - 475 / 1000\<bar>"
    unfolding grid_500 [OF i] by (rule margin_500)
  show "1 / 20000 \<le> \<bar>grid 1 500 ! i - 525 / 1000\<bar>"
    unfolding grid_500 [OF i] by (rule margin_500)
qed

theorem barrier_scenario_witness:
  "(250 :: nat) < 500 \<and> (100 :: nat) < 500
   \<and> grid 1 500 ! 250 = 250 / 499
   \<and> barrier_potential (grid 1 500) 50 (5 / 100) (1 / 2) ! 250 = 50
   \<and> barrier_potential (grid 1 500) 50 (5 / 100) (1 / 2) ! 238 = 50
   \<and> barrier_potential (grid 1 500) 50 (5 / 100) (1 / 2) ! 237 = 0
   \<and> barrier_potential (grid 1 500) 50 (5 / 100) (1 / 2) ! 100 = 0"
proof -
  have g: "grid 1 500 ! 250 = 250 / 499"
    using grid_500 [of 250] by simp
  from barrier_scenario
  have a: "\<And>i. i < 500 \<Longrightarrow> barrier_potential (grid 1 500) 50 (5 / 100) (1 / 2) ! i
          = (if 238 \<le> i \<and> i \<le> 261 then 50 else 0)"
    by blast
  from a [of 250] a [of 238] a [of 237] a [of 100] g show ?thesis
    by simp
qed

section \<open>The clock, the snapshots and a step that raises\<close>

lemma step_time:
  assumes "propagator_ok em s" and "ready s"
  shows "\<exists>s'. step em s = Inr s' \<and> ready s' \<and> propagator_ok em s'
           \<and> self_time s' = self_time s + self_dt s \<and> self_dt s' = self_dt s"
proof -
  from assms(2) obtain a where a: "self_psi s = Some a" "a < length (store s)"
      "length (store s ! a) = nat (self_N s)"
    by (auto simp: ready_def)
  from assms(1) a(3) obtain w
    where w: "em (self_H s) (self_dt s) (self_hbar s) (store s ! a) = Inr w"
      "length w = nat (self_N s)"
    by (auto simp: propagator_ok_def)
  show ?thesis
    using a w assms(1)
    by (simp add: step_def ready_def propagator_ok_def Let_def nth_append)
qed

lemma step_loop_time:
  "propagator_ok em s \<Longrightarrow> ready s \<Longrightarrow>
     \<exists>s'. step_loop em n s = Inr s' \<and> self_time s' = self_time s + real n * self_dt s"
proof (induction n arbitrary: s)
  case 0
  then show ?case by simp
next
  case (Suc n)
  from step_time [OF Suc.prems] obtain s1
    where s1: "step em s = Inr s1" "ready s1" "propagator_ok em s1"
      "self_time s1 = self_time s + self_dt s" "self_dt s1 = self_dt s"
    by blast
  from Suc.IH [OF s1(3) s1(2)] s1 show ?case
    by (auto simp: algebra_simps)
qed

text \<open>
  The clock law of the specification. On a simulator whose propagator does not raise,
  after the installation of an array of length \<open>N\<close> the clock is at zero, and \<open>n\<close> calls
  of \<^verbatim>\<open>step\<close> return and leave it at \<open>n \<cdot> dt\<close>.
\<close>

theorem clock_law:
  assumes "propagator_ok em s" and "length psi0 = nat (self_N s)"
  shows "\<exists>s0 s'. set_initial_wavefunction psi0 s = Inr s0 \<and> self_time s0 = 0
           \<and> step_loop em n s0 = Inr s' \<and> self_time s' = real n * self_dt s"
proof -
  from install_ready [OF assms(2), of em] obtain s0
    where s0: "set_initial_wavefunction psi0 s = Inr s0" "ready s0"
      "self_dt s0 = self_dt s" "propagator_ok em s0 \<longleftrightarrow> propagator_ok em s"
    by blast
  have t: "self_time s0 = 0"
    using s0(1) by (auto simp: set_initial_wavefunction_def Let_def)
  from s0(4) assms(1) have ok: "propagator_ok em s0"
    by simp
  from step_loop_time [OF ok s0(2), of n] s0(1) s0(3) t show ?thesis
    by auto
qed

theorem clock_law_witness:
  "propagator_ok hold demo_sim \<and> length [1, 0 :: complex] = nat (self_N demo_sim)
   \<and> set_initial_wavefunction [1, 0] demo_sim = Inr demo_installed
   \<and> (\<exists>s'. step_loop hold 3 demo_installed = Inr s' \<and> self_time s' = 3 / 1000)"
proof -
  have h2: "length [1, 0 :: complex] = nat (self_N demo_sim)"
    by (simp add: demo_sim_def)
  from clock_law [OF hold_ok h2, of 3] obtain s0 s'
    where "set_initial_wavefunction [1, 0] demo_sim = Inr s0"
      and "step_loop hold 3 s0 = Inr s'" and "self_time s' = real 3 * self_dt demo_sim"
    by blast
  with demo_install have "step_loop hold 3 demo_installed = Inr s' \<and> self_time s' = 3 / 1000"
    by (simp add: demo_sim_def)
  with hold_ok h2 demo_install show ?thesis
    by blast
qed

text \<open>
  The history is appended to and its snapshots are copies. A call of \<^verbatim>\<open>step\<close> that
  returns leaves the history of before with one entry more; the new entry is an array
  other than the new \<^verbatim>\<open>self.psi\<close>, with the same contents, both of them new; and every
  array there was is as it was.
\<close>

theorem step_appends:
  assumes "step em s = Inr s'"
  shows "\<exists>a b. self_psi s' = Some a \<and> self_history s' = self_history s @ [b]
           \<and> a \<noteq> b \<and> length (store s) \<le> a \<and> length (store s) \<le> b
           \<and> a < length (store s') \<and> b < length (store s')
           \<and> store s' ! b = store s' ! a
           \<and> take (length (store s)) (store s') = store s"
  using assms
  by (auto simp: step_def Let_def nth_append split: option.splits sum.splits)

theorem step_appends_witness:
  "step hold demo_installed
     = Inr (demo_installed\<lparr>store := store demo_installed @ [[Fin (1 / 2), Fin 0],
                                                          [Fin (1 / 2), Fin 0]],
              self_psi := Some 2, self_time := 1 / 1000, self_history := [1, 3]\<rparr>)
   \<and> (\<exists>a b. Some 2 = Some a \<and> [1, 3] = self_history demo_installed @ [b] \<and> a \<noteq> b)"
proof -
  let ?s' = "demo_installed\<lparr>store := store demo_installed @ [[Fin (1 / 2), Fin 0],
                                                          [Fin (1 / 2), Fin 0]],
              self_psi := Some 2, self_time := 1 / 1000, self_history := [1, 3]\<rparr>"
  have s: "step hold demo_installed = Inr ?s'"
    by (simp add: step_def hold_def demo_installed_def demo_sim_def Let_def)
  from step_appends [OF s]
  have "\<exists>a b. Some 2 = Some a \<and> [1, 3] = self_history demo_installed @ [b] \<and> a \<noteq> b"
    by simp
  with s show ?thesis
    by blast
qed

lemma step_loop_aborts:
  assumes "step_loop em n s = Inl (e, s')"
  shows "\<exists>k. k < n \<and> step_loop em k s = Inr s' \<and> step em s' = Inl (e, s')"
  using assms
proof (induction n arbitrary: s)
  case 0
  then show ?case by simp
next
  case (Suc n)
  show ?case
  proof (cases "step em s")
    case (Inl p)
    with Suc.prems have "p = (e, s')"
      by simp
    moreover from Inl have "snd p = s"
      by (auto simp: step_def Let_def split: option.splits sum.splits)
    ultimately have "s' = s" and "step em s = Inl (e, s')"
      using Inl by auto
    then show ?thesis
      by (intro exI [of _ 0]) simp
  next
    case (Inr s1)
    with Suc.prems have "step_loop em n s1 = Inl (e, s')"
      by simp
    from Suc.IH [OF this] obtain k
      where "k < n" "step_loop em k s1 = Inr s'" "step em s' = Inl (e, s')"
      by blast
    with Inr show ?thesis
      by (intro exI [of _ "Suc k"]) simp
  qed
qed

text \<open>
  A call of \<^verbatim>\<open>evolve\<close> that raises: either \<open>dt\<close> is zero, the division raises and the
  object is as it was; or some of the steps were completed, the next one raised, and
  the object is as the completed steps left it, the step that raised having changed
  nothing.
\<close>

theorem evolve_aborts:
  assumes "evolve em total_time s = Inl (e, s')"
  shows "self_dt s = 0 \<and> e = ZeroDivisionError \<and> s' = s
     \<or> self_dt s \<noteq> 0
       \<and> (\<exists>k. k < nat \<lfloor>round_double (total_time / self_dt s)\<rfloor>
              \<and> step_loop em k s = Inr s' \<and> step em s' = Inl (e, s'))"
proof (cases "self_dt s = 0")
  case True
  with assms show ?thesis
    by (simp add: evolve_def py_float_div_def)
next
  case False
  with assms
  have "step_loop em (nat \<lfloor>round_double (total_time / self_dt s)\<rfloor>) s = Inl (e, s')"
    by (simp add: evolve_step_loop)
  from step_loop_aborts [OF this] False show ?thesis
    by blast
qed

theorem evolve_aborts_witness:
  "evolve shape_checked (3 / 1024)
       (tick_sim\<lparr>store := [[Fin (1 / 2)], [Fin (1 / 2)]], self_psi := Some 0,
                  self_time := 0, self_history := [1]\<rparr>)
     = Inl (ValueError ''shapes of matrices A and B are not compatible'',
            tick_sim\<lparr>store := [[Fin (1 / 2)], [Fin (1 / 2)]], self_psi := Some 0,
                       self_time := 0, self_history := [1]\<rparr>)
   \<and> evolve hold 1 (demo_installed\<lparr>self_dt := 0\<rparr>)
     = Inl (ZeroDivisionError, demo_installed\<lparr>self_dt := 0\<rparr>)"
proof -
  let ?s = "tick_sim\<lparr>store := [[Fin (1 / 2)], [Fin (1 / 2)]], self_psi := Some 0,
                     self_time := 0, self_history := [1]\<rparr>"
  have d: "self_dt ?s \<noteq> 0"
    by (simp add: tick_sim_def)
  have "(3 / 1024) / self_dt ?s = real_of_int 3"
    by (simp add: tick_sim_def)
  moreover have "round_double (real_of_int 3) = real_of_int 3"
    by (rule round_double_int) simp
  ultimately have q: "nat \<lfloor>round_double ((3 / 1024) / self_dt ?s)\<rfloor> = Suc 2"
    by simp
  have st: "step shape_checked ?s
     = Inl (ValueError ''shapes of matrices A and B are not compatible'', ?s)"
    by (simp add: step_def shape_checked_def tick_sim_def demo_sim_def)
  have 1: "evolve shape_checked (3 / 1024) ?s
     = Inl (ValueError ''shapes of matrices A and B are not compatible'', ?s)"
    unfolding evolve_step_loop [OF d] q step_loop.simps st by simp
  have 2: "\<exists>e s'. evolve hold 1 (demo_installed\<lparr>self_dt := 0\<rparr>) = Inl (e, s')"
    by (simp add: evolve_def py_float_div_def)
  then obtain e s' where 3: "evolve hold 1 (demo_installed\<lparr>self_dt := 0\<rparr>) = Inl (e, s')"
    by blast
  from evolve_aborts [OF 3] have "e = ZeroDivisionError \<and> s' = demo_installed\<lparr>self_dt := 0\<rparr>"
    by simp
  with 1 3 show ?thesis
    by simp
qed

end
